theory Spec2Isabelle
  imports Complex_Main "HOL-Library.Sublist" "HOL-Library.Log_Nat"
    "HOL-Library.Code_Target_Numeral"
begin

section \<open>JavaScript strings\<close>

text \<open>
  The handlers of \<^verbatim>\<open>app/[transport]/route.ts\<close> work on JavaScript strings. A string is
  modelled as a list of code units; the code units of the model are the 8-bit characters of
  \<^typ>\<open>string\<close>, so the model covers the texts whose code units lie below 256.
\<close>

definition LF :: string where
  "LF = [CHR 0x0A]"

definition DQ :: string where
  "DQ = [CHR 0x22]"

text \<open>\<^verbatim>\<open>s.endsWith(t)\<close>.\<close>

definition endsWith :: "string \<Rightarrow> string \<Rightarrow> bool" where
  "endsWith s t = suffix t s"

text \<open>
  \<^verbatim>\<open>s.replace(pat, rep)\<close> with a string pattern: only the first occurrence of
  \<open>pat\<close> is replaced. (The replacement texts of this program hold no \<^verbatim>\<open>$\<close>, so no
  replacement pattern is expanded.)
\<close>

fun replace_first :: "string \<Rightarrow> string \<Rightarrow> string \<Rightarrow> string" where
  "replace_first pat rep [] = (if pat = [] then rep else [])"
| "replace_first pat rep (c # cs) =
     (if prefix pat (c # cs) then rep @ drop (length pat) (c # cs)
      else c # replace_first pat rep cs)"

text \<open>
  \<^verbatim>\<open>s.replace(/pat/g, rep)\<close> for a pattern that is a literal, non-empty text: every
  occurrence, scanning from the left, occurrences not overlapping.
\<close>

fun replace_all :: "string \<Rightarrow> string \<Rightarrow> string \<Rightarrow> string" where
  "replace_all pat rep [] = []"
| "replace_all pat rep (c # cs) =
     (if pat \<noteq> [] \<and> prefix pat (c # cs)
      then rep @ replace_all pat rep (drop (length pat - 1) cs)
      else c # replace_all pat rep cs)"

text \<open>\<^verbatim>\<open>s.padStart(n, '0')\<close>.\<close>

definition padStart0 :: "nat \<Rightarrow> string \<Rightarrow> string" where
  "padStart0 n s = replicate (n - length s) (CHR ''0'') @ s"

text \<open>
  \<^verbatim>\<open>s.trim()\<close>: white space and line terminators are removed at both ends. Below 256
  these are TAB, LF, VT, FF, CR, SP and NBSP.
\<close>

definition is_js_space :: "char \<Rightarrow> bool" where
  "is_js_space c \<longleftrightarrow> c \<in> {CHR 0x09, CHR 0x0A, CHR 0x0B, CHR 0x0C, CHR 0x0D, CHR 0x20, CHR 0xA0}"

definition trim :: "string \<Rightarrow> string" where
  "trim s = rev (dropWhile is_js_space (rev (dropWhile is_js_space s)))"

definition is_digit :: "char \<Rightarrow> bool" where
  "is_digit c \<longleftrightarrow> 48 \<le> (of_char c :: nat) \<and> (of_char c :: nat) \<le> 57"

definition digit_val :: "char \<Rightarrow> nat" where
  "digit_val c = of_char c - 48"

definition nat_of_digits :: "string \<Rightarrow> nat" where
  "nat_of_digits s = foldl (\<lambda>n c. 10 * n + digit_val c) 0 s"

section \<open>JavaScript numbers\<close>

text \<open>
  A number is an IEEE 754 binary64 value: a finite value (the real number it denotes;
  \<open>Fin 0\<close> is \<open>+0\<close>), \<open>-0\<close>, an infinity or NaN.
\<close>

datatype js_number = Fin real | NegZero | PInf | NInf | NaN

text \<open>
  Rounding of a real number to binary64, to nearest with ties to even: \<open>ilog2 x\<close> is the
  binary exponent of \<open>x\<close>, \<open>quantum x\<close> the exponent of the last place of the format at
  \<open>x\<close> (53 significant bits, subnormal below \<open>2 powi - 1022\<close>), and a result of
  \<open>2 powi 1024\<close> or more overflows to an infinity.
\<close>

definition round_half_even :: "real \<Rightarrow> int" where
  "round_half_even x =
     (let f = \<lfloor>x\<rfloor>; d = x - of_int f
      in if d < 1/2 then f else if 1/2 < d then f + 1 else if even f then f else f + 1)"

definition ilog2 :: "real \<Rightarrow> int" where
  "ilog2 x = (if 1 \<le> x then bitlen \<lfloor>x\<rfloor> - 1 else - bitlen (\<lceil>1 / x\<rceil> - 1))"

definition quantum :: "real \<Rightarrow> int" where
  "quantum x = max (ilog2 x) (- 1022) - 52"

definition round_pos :: "real \<Rightarrow> real" where
  "round_pos x = of_int (round_half_even (x / 2 powi quantum x)) * 2 powi quantum x"

definition fl :: "real \<Rightarrow> js_number" where
  "fl x =
     (if x = 0 then Fin 0
      else if 0 < x then (let r = round_pos x in if 2 powi 1024 \<le> r then PInf else Fin r)
      else (let r = round_pos (- x)
            in if 2 powi 1024 \<le> r then NInf else if r = 0 then NegZero else Fin (- r)))"

text \<open>The arithmetic operators on numbers: the exact result, rounded.\<close>

fun is_zero :: "js_number \<Rightarrow> bool" where
  "is_zero (Fin x) = (x = 0)"
| "is_zero NegZero = True"
| "is_zero _ = False"

fun is_inf :: "js_number \<Rightarrow> bool" where
  "is_inf PInf = True"
| "is_inf NInf = True"
| "is_inf _ = False"

fun sign_neg :: "js_number \<Rightarrow> bool" where
  "sign_neg (Fin x) = (x < 0)"
| "sign_neg NegZero = True"
| "sign_neg NInf = True"
| "sign_neg _ = False"

fun val :: "js_number \<Rightarrow> real" where
  "val (Fin x) = x"
| "val _ = 0"

fun num_neg :: "js_number \<Rightarrow> js_number" where
  "num_neg (Fin x) = (if x = 0 then NegZero else Fin (- x))"
| "num_neg NegZero = Fin 0"
| "num_neg PInf = NInf"
| "num_neg NInf = PInf"
| "num_neg NaN = NaN"

fun num_add :: "js_number \<Rightarrow> js_number \<Rightarrow> js_number" where
  "num_add NaN _ = NaN"
| "num_add _ NaN = NaN"
| "num_add PInf NInf = NaN"
| "num_add NInf PInf = NaN"
| "num_add PInf _ = PInf"
| "num_add _ PInf = PInf"
| "num_add NInf _ = NInf"
| "num_add _ NInf = NInf"
| "num_add NegZero NegZero = NegZero"
| "num_add NegZero (Fin y) = Fin y"
| "num_add (Fin x) NegZero = Fin x"
| "num_add (Fin x) (Fin y) = fl (x + y)"

definition num_sub :: "js_number \<Rightarrow> js_number \<Rightarrow> js_number" where
  "num_sub a b = num_add a (num_neg b)"

definition signed_inf :: "bool \<Rightarrow> js_number" where
  "signed_inf neg = (if neg then NInf else PInf)"

definition signed_zero :: "bool \<Rightarrow> js_number" where
  "signed_zero neg = (if neg then NegZero else Fin 0)"

definition num_mul :: "js_number \<Rightarrow> js_number \<Rightarrow> js_number" where
  "num_mul a b =
     (if a = NaN \<or> b = NaN then NaN
      else if (is_inf a \<and> is_zero b) \<or> (is_zero a \<and> is_inf b) then NaN
      else if is_inf a \<or> is_inf b then signed_inf (sign_neg a \<noteq> sign_neg b)
      else if is_zero a \<or> is_zero b then signed_zero (sign_neg a \<noteq> sign_neg b)
      else fl (val a * val b))"

definition num_div :: "js_number \<Rightarrow> js_number \<Rightarrow> js_number" where
  "num_div a b =
     (if a = NaN \<or> b = NaN then NaN
      else if (is_inf a \<and> is_inf b) \<or> (is_zero a \<and> is_zero b) then NaN
      else if is_inf a \<or> is_zero b then signed_inf (sign_neg a \<noteq> sign_neg b)
      else if is_inf b \<or> is_zero a then signed_zero (sign_neg a \<noteq> sign_neg b)
      else fl (val a / val b))"

text \<open>The comparisons \<^verbatim>\<open><=\<close> and \<^verbatim>\<open><\<close>.\<close>

fun num_le :: "js_number \<Rightarrow> js_number \<Rightarrow> bool" where
  "num_le NaN _ = False"
| "num_le _ NaN = False"
| "num_le NInf _ = True"
| "num_le _ PInf = True"
| "num_le PInf _ = False"
| "num_le _ NInf = False"
| "num_le a b = (val a \<le> val b)"

fun num_lt :: "js_number \<Rightarrow> js_number \<Rightarrow> bool" where
  "num_lt NaN _ = False"
| "num_lt _ NaN = False"
| "num_lt PInf _ = False"
| "num_lt _ NInf = False"
| "num_lt NInf _ = True"
| "num_lt _ PInf = True"
| "num_lt a b = (val a < val b)"

subsection \<open>Number to text\<close>

text \<open>
  \<^verbatim>\<open>Number::toString\<close> (radix 10): the shortest decimal digit string \<open>s\<close> (with \<open>k\<close>
  digits and decimal exponent \<open>n\<close>) that rounds to the number, the closest to it when
  several have that length, laid out as ECMA-262 prescribes.
\<close>

definition digit_char :: "nat \<Rightarrow> char" where
  "digit_char d = ''0123456789'' ! d"

fun string_of_nat :: "nat \<Rightarrow> string" where
  "string_of_nat n =
     (if n < 10 then [digit_char n] else string_of_nat (n div 10) @ [digit_char (n mod 10)])"

declare string_of_nat.simps [simp del]

definition decimal_exponent :: "real \<Rightarrow> int" where
  "decimal_exponent x =
     (if 1 \<le> x then int (floorlog 10 (nat \<lfloor>x\<rfloor>))
      else 1 - int (floorlog 10 (nat (\<lceil>1 / x\<rceil> - 1))))"

fun shortest_digits :: "real \<Rightarrow> int \<Rightarrow> nat \<Rightarrow> nat \<Rightarrow> nat \<times> int" where
  "shortest_digits x n k 0 = (nat \<lfloor>x / 10 powi (n - int k)\<rfloor>, n)"
| "shortest_digits x n k (Suc fuel) =
     (let scale = 10 powi (n - int k);
          lo = \<lfloor>x / scale\<rfloor>;
          hi = lo + 1;
          ok_lo = (fl (of_int lo * scale) = Fin x);
          ok_hi = (fl (of_int hi * scale) = Fin x);
          d_lo = x - of_int lo * scale;
          d_hi = of_int hi * scale - x;
          pick_hi = (ok_hi \<and> (\<not> ok_lo \<or> d_hi < d_lo \<or> (d_hi = d_lo \<and> even hi)))
      in if pick_hi then (if hi = 10 ^ k then (1, n + 1) else (nat hi, n))
         else if ok_lo then (nat lo, n)
         else shortest_digits x n (Suc k) fuel)"

definition toString_pos :: "real \<Rightarrow> string" where
  "toString_pos x =
     (let (s, n) = shortest_digits x (decimal_exponent x) 1 17;
          ds = string_of_nat s;
          k = int (length ds)
      in if k \<le> n \<and> n \<le> 21 then ds @ replicate (nat (n - k)) (CHR ''0'')
         else if 0 < n \<and> n \<le> 21 then take (nat n) ds @ ''.'' @ drop (nat n) ds
         else if - 6 < n \<and> n \<le> 0 then ''0.'' @ replicate (nat (- n)) (CHR ''0'') @ ds
         else (let e = n - 1;
                   es = (if e < 0 then ''-'' else ''+'') @ string_of_nat (nat \<bar>e\<bar>)
               in if k = 1 then ds @ ''e'' @ es
                  else take 1 ds @ ''.'' @ drop 1 ds @ ''e'' @ es))"

fun Number_toString :: "js_number \<Rightarrow> string" where
  "Number_toString NaN = ''NaN''"
| "Number_toString NegZero = ''0''"
| "Number_toString PInf = ''Infinity''"
| "Number_toString NInf = ''-Infinity''"
| "Number_toString (Fin x) =
     (if x = 0 then ''0'' else if x < 0 then ''-'' @ toString_pos (- x) else toString_pos x)"

text \<open>
  \<^verbatim>\<open>Number.prototype.toFixed(f)\<close>: below \<open>10 ^ 21\<close> the integer \<open>n\<close> nearest to
  \<open>x * 10 ^ f\<close> (the larger when two are equally near) with a point before its last \<open>f\<close>
  digits; from \<open>10 ^ 21\<close> on, and for the values that are not finite, \<open>ToString\<close>.
\<close>

definition toFixed_digits :: "nat \<Rightarrow> real \<Rightarrow> string" where
  "toFixed_digits f x =
     (let n = nat \<lfloor>x * 10 ^ f + 1 / 2\<rfloor>;
          m = string_of_nat n;
          m' = replicate (f + 1 - length m) (CHR ''0'') @ m
      in if f = 0 then m
         else take (length m' - f) m' @ ''.'' @ drop (length m' - f) m')"

fun toFixed :: "nat \<Rightarrow> js_number \<Rightarrow> string" where
  "toFixed f (Fin x) =
     (if x < 0 then (if 10 ^ 21 \<le> - x then Number_toString (Fin x) else ''-'' @ toFixed_digits f (- x))
      else (if 10 ^ 21 \<le> x then Number_toString (Fin x) else toFixed_digits f x))"
| "toFixed f NegZero = toFixed_digits f 0"
| "toFixed f a = Number_toString a"


text \<open>The value of a numeric literal of the source text whose mathematical value is \<open>x\<close>.\<close>

definition Number_literal :: "real \<Rightarrow> js_number" where
  "Number_literal x = fl x"

section \<open>Thrown values\<close>

text \<open>
  What a \<^verbatim>\<open>catch (error)\<close> clause receives: an \<^verbatim>\<open>Error\<close> object with its message, or
  any other value with its \<^verbatim>\<open>String(error)\<close> rendering.
\<close>

datatype thrown = Error_object string | Other_thrown string

text \<open>\<^verbatim>\<open>error instanceof Error ? error.message : String(error)\<close>\<close>

fun errorMessage :: "thrown \<Rightarrow> string" where
  "errorMessage (Error_object m) = m"
| "errorMessage (Other_thrown s) = s"

section \<open>Plain objects used as maps\<close>

text \<open>
  \<^verbatim>\<open>Record<string, string>\<close>, built from the literal \<^verbatim>\<open>{}\<close>: the own enumerable
  properties, in the order \<^verbatim>\<open>Object.keys\<close> and \<^verbatim>\<open>Object.entries\<close> list them
  (array indices first, in ascending order, then the other keys in the order they were
  created).
\<close>

type_synonym js_object = "(string \<times> string) list"

definition is_array_index :: "string \<Rightarrow> bool" where
  "is_array_index k \<longleftrightarrow>
     k \<noteq> [] \<and> list_all is_digit k \<and> (k = ''0'' \<or> hd k \<noteq> CHR ''0'') \<and>
     nat_of_digits k < 2 ^ 32 - 1"

fun insert_index :: "string \<Rightarrow> string \<Rightarrow> js_object \<Rightarrow> js_object" where
  "insert_index k v [] = [(k, v)]"
| "insert_index k v ((k', v') # ps) =
     (if is_array_index k' \<and> nat_of_digits k' < nat_of_digits k
      then (k', v') # insert_index k v ps
      else (k, v) # (k', v') # ps)"

text \<open>
  \<^verbatim>\<open>obj[k] = v\<close> for a string \<open>v\<close>. The key \<^verbatim>\<open>__proto__\<close> is the accessor inherited
  from \<^verbatim>\<open>Object.prototype\<close>: its setter ignores a value that is not an object, and no
  own property is created.
\<close>

definition obj_set :: "string \<Rightarrow> string \<Rightarrow> js_object \<Rightarrow> js_object" where
  "obj_set k v obj =
     (if k = ''__proto__'' then obj
      else if k \<in> fst ` set obj then map (\<lambda>(k', v'). if k' = k then (k', v) else (k', v')) obj
      else if is_array_index k then insert_index k v obj
      else obj @ [(k, v)])"

definition Object_keys :: "js_object \<Rightarrow> string list" where
  "Object_keys obj = map fst obj"

definition Object_entries :: "js_object \<Rightarrow> (string \<times> string) list" where
  "Object_entries obj = obj"

section \<open>Property lookup on object literals\<close>

text \<open>
  \<^verbatim>\<open>obj[k]\<close> on an object written as a literal finds an own property, or else a property
  of \<^verbatim>\<open>Object.prototype\<close>, or else \<^verbatim>\<open>undefined\<close>. These are the property names of
  \<^verbatim>\<open>Object.prototype\<close>; \<^verbatim>\<open>__proto__\<close> is an accessor whose value is
  \<^verbatim>\<open>Object.prototype\<close> itself, the others are functions.
\<close>

definition object_prototype_names :: "string list" where
  "object_prototype_names =
     [''constructor'', ''__defineGetter__'', ''__defineSetter__'', ''hasOwnProperty'',
      ''__lookupGetter__'', ''__lookupSetter__'', ''isPrototypeOf'', ''propertyIsEnumerable'',
      ''toString'', ''valueOf'', ''__proto__'', ''toLocaleString'']"

datatype 'a property = Undefined | Own 'a | Inherited string

definition get_property :: "(string \<times> 'a) list \<Rightarrow> string \<Rightarrow> 'a property" where
  "get_property obj k =
     (case map_of obj k of
        Some v \<Rightarrow> Own v
      | None \<Rightarrow> if k \<in> set object_prototype_names then Inherited k else Undefined)"

section \<open>Dates\<close>

text \<open>
  A \<^verbatim>\<open>Date\<close> object is invalid (its time value is NaN) or valid; of a valid one the
  model keeps what the program reads: the local-time fields and the text of
  \<^verbatim>\<open>toISOString()\<close>.
\<close>

record date_fields =
  fullYear :: int
  monthIndex :: nat
  dayOfMonth :: nat
  hours :: nat
  minutes :: nat
  seconds :: nat
  isoString :: string

datatype js_date = Invalid_Date | Valid_Date date_fields

fun date_getter :: "(date_fields \<Rightarrow> int) \<Rightarrow> js_date \<Rightarrow> js_number" where
  "date_getter field Invalid_Date = NaN"
| "date_getter field (Valid_Date d) = Fin (of_int (field d))"

definition getFullYear :: "js_date \<Rightarrow> js_number" where
  "getFullYear = date_getter fullYear"

definition getMonth :: "js_date \<Rightarrow> js_number" where
  "getMonth = date_getter (\<lambda>d. int (monthIndex d))"

definition getDate :: "js_date \<Rightarrow> js_number" where
  "getDate = date_getter (\<lambda>d. int (dayOfMonth d))"

definition getHours :: "js_date \<Rightarrow> js_number" where
  "getHours = date_getter (\<lambda>d. int (hours d))"

definition getMinutes :: "js_date \<Rightarrow> js_number" where
  "getMinutes = date_getter (\<lambda>d. int (minutes d))"

definition getSeconds :: "js_date \<Rightarrow> js_number" where
  "getSeconds = date_getter (\<lambda>d. int (seconds d))"

section \<open>What the engine decides\<close>

text \<open>
  The program leaves these to the JavaScript engine, so the model takes them as a
  parameter: the messages of the errors the engine throws (a \<^verbatim>\<open>TypeError\<close> for the call
  of a value that is not a function and for \<^verbatim>\<open>__defineGetter__\<close> or
  \<^verbatim>\<open>__defineSetter__\<close> without a function, its message a function of the name of the
  one that is called, the \<^verbatim>\<open>RangeError\<close> of \<^verbatim>\<open>toISOString\<close> on an invalid date), the
  dates \<^verbatim>\<open>new Date(text)\<close> and
  \<^verbatim>\<open>new Date()\<close> construct, and what becomes of \<^verbatim>\<open>f[member](value)\<close> when \<open>f\<close>
  is the property of \<^verbatim>\<open>Object.prototype\<close> with the given name: the member is falsy, or
  it is called and the call returns (a value that \<^verbatim>\<open>Number(...)\<close> turns into a number)
  or throws.
\<close>

datatype member_use = Member_falsy | Member_called "thrown + js_number"

record engine =
  not_a_function_message :: string
  accessor_message :: "string \<Rightarrow> string"
  invalid_time_message :: string
  builtin_member :: "string \<Rightarrow> string \<Rightarrow> js_number \<Rightarrow> member_use"
  Date_parse :: "string \<Rightarrow> js_date"
  Date_now :: js_date

section \<open>Schema loader\<close>

text \<open>
  The file system the loader sees: the result of \<^verbatim>\<open>fs.readdir(schemasDir)\<close> and, for
  each file name of that directory, the result of \<^verbatim>\<open>fs.readFile(join(schemasDir, file),
  'utf-8')\<close>. Either may reject.
\<close>

record file_system =
  readdir :: "thrown + string list"
  readFile :: "string \<Rightarrow> thrown + string"

text \<open>The \<^verbatim>\<open>for (const file of schemaFiles)\<close> loop; \<open>Inl\<close> is the rejected read.\<close>

fun load_loop :: "(string \<Rightarrow> thrown + string) \<Rightarrow> string list \<Rightarrow> js_object \<Rightarrow> thrown + js_object" where
  "load_loop rf [] schemas = Inr schemas"
| "load_loop rf (file # files) schemas =
     (if endsWith file ''.sql'' then
        (let tableName = replace_first ''.sql'' '''' file in
         case rf file of
           Inl e \<Rightarrow> Inl e
         | Inr content \<Rightarrow> load_loop rf files (obj_set tableName content schemas))
      else load_loop rf files schemas)"

text \<open>
  \<^verbatim>\<open>loadDatabaseSchemas\<close>: the mapping it resolves to, and what it wrote with
  \<^verbatim>\<open>console.error\<close>.
\<close>

record load_result =
  schemas_of :: js_object
  logged :: "thrown list"

definition loadDatabaseSchemas :: "file_system \<Rightarrow> load_result" where
  "loadDatabaseSchemas fs =
     (case readdir fs of
        Inl e \<Rightarrow> \<lparr>schemas_of = [], logged = [e]\<rparr>
      | Inr schemaFiles \<Rightarrow>
          (case load_loop (readFile fs) schemaFiles [] of
             Inl e \<Rightarrow> \<lparr>schemas_of = [], logged = [e]\<rparr>
           | Inr schemas \<Rightarrow> \<lparr>schemas_of = schemas, logged = []\<rparr>))"

text \<open>
  \<^verbatim>\<open>let databaseSchemas = {}\<close>, assigned once the load has resolved; before that,
  and when nothing loaded, it is the empty object.
\<close>

definition databaseSchemas_after_load :: "file_system \<Rightarrow> js_object" where
  "databaseSchemas_after_load fs = schemas_of (loadDatabaseSchemas fs)"

section \<open>The echo tool\<close>

definition echo :: "string \<Rightarrow> string list" where
  "echo message = [''Tool echo: '' @ message]"

section \<open>The calculate tool\<close>

text \<open>
  \<^verbatim>\<open>expression.replace(/[^-()*+/0-9.]/g, '')\<close>: every character outside the class is
  removed.
\<close>

definition allowed_char :: "char \<Rightarrow> bool" where
  "allowed_char c \<longleftrightarrow>
     c = CHR ''-'' \<or> c = CHR ''('' \<or> c = CHR '')'' \<or> c = CHR ''*'' \<or> c = CHR ''+'' \<or> c = CHR ''/''
     \<or> is_digit c \<or> c = CHR ''.''"

definition sanitize :: "string \<Rightarrow> string" where
  "sanitize expression = filter allowed_char expression"

text \<open>
  \<^verbatim>\<open>eval\<close> of a text over these characters. The route is module code, so the text is
  evaluated as strict code. Over these characters a program is empty or one expression
  statement, built from decimal literals, regular expression literals, parentheses, the
  unary and binary operators \<^verbatim>\<open>+ - * /\<close> and \<^verbatim>\<open>**\<close>, and calls; comments may stand
  between the tokens. The model covers all of these but \<^verbatim>\<open>**\<close>, whose value ECMA-262
  leaves to the engine (an implementation-approximated value): for a text with \<^verbatim>\<open>**\<close>,
  and for a text with another character, it gives no answer.

  The tokens, by the longest match. \<open>T_bad\<close> stands where the text cannot be evaluated
  whatever follows, and the tokens end there: at \<^verbatim>\<open>++\<close> and \<^verbatim>\<open>--\<close> (no operand over
  these characters can be assigned to), at a point that does not belong to a literal (no
  name can follow it), at a literal with a zero before a further digit (an error in strict
  code), at a comment or a regular expression literal that is not closed, and at a regular
  expression literal that has flags (only digits can follow it, and no digit is a flag) or
  whose body is not a pattern.
\<close>

datatype token =
  T_num string | T_regex string | T_plus | T_minus | T_star | T_slash | T_lparen | T_rparen
  | T_bad

definition literal_text :: "string \<Rightarrow> string" where
  "literal_text s =
     (let i = takeWhile is_digit s; r = dropWhile is_digit s
      in if r \<noteq> [] \<and> hd r = CHR ''.'' then i @ ''.'' @ takeWhile is_digit (tl r) else i)"

text \<open>
  The number of characters of a comment after its \<^verbatim>\<open>/*\<close>, up to and including the
  first \<^verbatim>\<open>*/\<close>.
\<close>

fun comment_end :: "string \<Rightarrow> nat option" where
  "comment_end (c # d # cs) =
     (if c = CHR ''*'' \<and> d = CHR ''/'' then Some 2 else map_option Suc (comment_end (d # cs)))"
| "comment_end cs = None"

text \<open>
  Whether a text over these characters is a pattern: a digit, \<^verbatim>\<open>-\<close> and \<^verbatim>\<open>.\<close> are
  atoms, parentheses enclose a group, which is an atom, and \<^verbatim>\<open>*\<close> and \<^verbatim>\<open>+\<close> quantify
  the atom they follow. \<open>quantifiable\<close> says that an atom has just been read, \<open>depth\<close>
  counts the groups that are open.
\<close>

fun regex_pattern :: "bool \<Rightarrow> nat \<Rightarrow> string \<Rightarrow> bool" where
  "regex_pattern quantifiable depth [] = (depth = 0)"
| "regex_pattern quantifiable depth (c # cs) =
     (if c = CHR ''('' then regex_pattern False (Suc depth) cs
      else if c = CHR '')'' then 0 < depth \<and> regex_pattern True (depth - 1) cs
      else if c = CHR ''*'' \<or> c = CHR ''+'' then quantifiable \<and> regex_pattern False depth cs
      else regex_pattern True depth cs)"

text \<open>
  The tokenizer. \<open>operand\<close> says that an operand is expected (at the start, after an
  operator and after an opening parenthesis): there a \<^verbatim>\<open>/\<close> starts a regular expression
  literal, elsewhere it is the division operator; \<^verbatim>\<open>//\<close> and \<^verbatim>\<open>/*\<close> start a comment
  at either place. The text has no line terminator, so a \<^verbatim>\<open>//\<close> comment runs to its
  end, and the body of a regular expression literal runs to the next \<^verbatim>\<open>/\<close>.
\<close>

function tokenize :: "bool \<Rightarrow> string \<Rightarrow> token list option" where
  "tokenize operand [] = Some []"
| "tokenize operand (c # cs) =
     (if is_digit c \<or> (c = CHR ''.'' \<and> cs \<noteq> [] \<and> is_digit (hd cs)) then
        (let t = literal_text (c # cs)
         in if c = CHR ''0'' \<and> cs \<noteq> [] \<and> is_digit (hd cs) then Some [T_bad]
            else map_option (Cons (T_num t)) (tokenize False (drop (length t - 1) cs)))
      else if c = CHR ''+'' then
        (if cs \<noteq> [] \<and> hd cs = CHR ''+'' then Some [T_bad]
         else map_option (Cons T_plus) (tokenize True cs))
      else if c = CHR ''-'' then
        (if cs \<noteq> [] \<and> hd cs = CHR ''-'' then Some [T_bad]
         else map_option (Cons T_minus) (tokenize True cs))
      else if c = CHR ''*'' then
        (if cs \<noteq> [] \<and> hd cs = CHR ''*'' then None
         else map_option (Cons T_star) (tokenize True cs))
      else if c = CHR ''/'' then
        (if cs \<noteq> [] \<and> hd cs = CHR ''/'' then Some []
         else if cs \<noteq> [] \<and> hd cs = CHR ''*'' then
           (case comment_end (tl cs) of
              None \<Rightarrow> Some [T_bad]
            | Some n \<Rightarrow> tokenize operand (drop n (tl cs)))
         else if operand then
           (let body = takeWhile (\<lambda>d. d \<noteq> CHR ''/'') cs;
                after = drop (Suc (length body)) cs
            in if length cs \<le> length body then Some [T_bad]
               else if after \<noteq> [] \<and> is_digit (hd after) then Some [T_bad]
               else if \<not> regex_pattern False 0 body then Some [T_bad]
               else map_option (Cons (T_regex body)) (tokenize False after))
         else map_option (Cons T_slash) (tokenize True cs))
      else if c = CHR ''('' then map_option (Cons T_lparen) (tokenize True cs)
      else if c = CHR '')'' then map_option (Cons T_rparen) (tokenize False cs)
      else if c = CHR ''.'' then Some [T_bad]
      else None)"
  by pat_completeness auto
termination
  by (relation "measure (\<lambda>(operand, s). length s)") auto

declare tokenize.simps [simp del]

text \<open>
  The number a decimal literal denotes: its mathematical value, rounded. (Where ECMA-262
  lets an engine round a literal of more than 20 significant digits less exactly, the model
  rounds exactly, as V8 does.)
\<close>

definition literal_value :: "string \<Rightarrow> js_number" where
  "literal_value s =
     (let i = takeWhile is_digit s; r = dropWhile is_digit s; f = (if r = [] then [] else tl r)
      in Number_literal (real (nat_of_digits i) + real (nat_of_digits f) / 10 ^ length f))"

text \<open>
  The values of the expressions: numbers, the objects that regular expression literals
  create (with the body of the literal) and the strings that \<^verbatim>\<open>+\<close> makes of them;
  \<^verbatim>\<open>undefined\<close> is the value of the empty program. As text, a regular expression is its
  body between two \<^verbatim>\<open>/\<close>. As a number, a regular expression is NaN, and so is each of
  these strings: it holds the text of a regular expression, hence a \<^verbatim>\<open>/\<close>, and is not
  the text of a number.
\<close>

datatype js_value =
  Undefined_value | Number_value js_number | String_value string | RegExp_value string

fun ToString :: "js_value \<Rightarrow> string" where
  "ToString Undefined_value = ''undefined''"
| "ToString (Number_value n) = Number_toString n"
| "ToString (String_value s) = s"
| "ToString (RegExp_value body) = ''/'' @ body @ ''/''"

fun ToNumber :: "js_value \<Rightarrow> js_number" where
  "ToNumber (Number_value n) = n"
| "ToNumber v = NaN"

fun is_text :: "js_value \<Rightarrow> bool" where
  "is_text (String_value s) = True"
| "is_text (RegExp_value body) = True"
| "is_text v = False"

text \<open>
  The operators: \<^verbatim>\<open>+\<close> concatenates when an operand is a string or an object, and adds
  numbers otherwise; the others work on numbers.
\<close>

definition js_add :: "js_value \<Rightarrow> js_value \<Rightarrow> js_value" where
  "js_add a b =
     (if is_text a \<or> is_text b then String_value (ToString a @ ToString b)
      else Number_value (num_add (ToNumber a) (ToNumber b)))"

definition js_sub :: "js_value \<Rightarrow> js_value \<Rightarrow> js_value" where
  "js_sub a b = Number_value (num_sub (ToNumber a) (ToNumber b))"

definition js_mul :: "js_value \<Rightarrow> js_value \<Rightarrow> js_value" where
  "js_mul a b = Number_value (num_mul (ToNumber a) (ToNumber b))"

definition js_div :: "js_value \<Rightarrow> js_value \<Rightarrow> js_value" where
  "js_div a b = Number_value (num_div (ToNumber a) (ToNumber b))"

definition js_plus :: "js_value \<Rightarrow> js_value" where
  "js_plus a = Number_value (ToNumber a)"

definition js_minus :: "js_value \<Rightarrow> js_value" where
  "js_minus a = Number_value (num_neg (ToNumber a))"

text \<open>A value that, if it is a string, holds a \<^verbatim>\<open>/\<close>.\<close>

fun slashed :: "js_value \<Rightarrow> bool" where
  "slashed (String_value s) = (CHR ''/'' \<in> set s)"
| "slashed v = True"

text \<open>
  The expression grammar, evaluated while it is read: a unary expression, the products and
  quotients of unary expressions from the left, the sums and differences of those from the
  left. \<open>None\<close> is a text the engine does not evaluate to a value: a syntax error, or a
  call (an operand followed by a parenthesis; no value here is a function), which throws.
  The comparisons of lengths hold for every result (what is left is a suffix of what was
  read).
\<close>

function (sequential) parse_unary :: "token list \<Rightarrow> (js_value \<times> token list) option"
  and parse_mul_rest :: "js_value \<Rightarrow> token list \<Rightarrow> (js_value \<times> token list) option"
  and parse_multiplicative :: "token list \<Rightarrow> (js_value \<times> token list) option"
  and parse_add_rest :: "js_value \<Rightarrow> token list \<Rightarrow> (js_value \<times> token list) option"
  and parse_additive :: "token list \<Rightarrow> (js_value \<times> token list) option"
where
  "parse_unary (T_num s # ts) = Some (Number_value (literal_value s), ts)"
| "parse_unary (T_regex body # ts) = Some (RegExp_value body, ts)"
| "parse_unary (T_plus # ts) = map_option (\<lambda>(v, r). (js_plus v, r)) (parse_unary ts)"
| "parse_unary (T_minus # ts) = map_option (\<lambda>(v, r). (js_minus v, r)) (parse_unary ts)"
| "parse_unary (T_lparen # ts) =
     (case parse_additive ts of
        Some (v, T_rparen # r) \<Rightarrow> Some (v, r)
      | _ \<Rightarrow> None)"
| "parse_unary _ = None"
| "parse_mul_rest v (T_star # ts) =
     (case parse_unary ts of
        Some (w, r) \<Rightarrow> if length r \<le> length ts then parse_mul_rest (js_mul v w) r else None
      | None \<Rightarrow> None)"
| "parse_mul_rest v (T_slash # ts) =
     (case parse_unary ts of
        Some (w, r) \<Rightarrow> if length r \<le> length ts then parse_mul_rest (js_div v w) r else None
      | None \<Rightarrow> None)"
| "parse_mul_rest v ts = Some (v, ts)"
| "parse_multiplicative ts =
     (case parse_unary ts of
        Some (v, r) \<Rightarrow> if length r < length ts then parse_mul_rest v r else None
      | None \<Rightarrow> None)"
| "parse_add_rest v (T_plus # ts) =
     (case parse_multiplicative ts of
        Some (w, r) \<Rightarrow> if length r \<le> length ts then parse_add_rest (js_add v w) r else None
      | None \<Rightarrow> None)"
| "parse_add_rest v (T_minus # ts) =
     (case parse_multiplicative ts of
        Some (w, r) \<Rightarrow> if length r \<le> length ts then parse_add_rest (js_sub v w) r else None
      | None \<Rightarrow> None)"
| "parse_add_rest v ts = Some (v, ts)"
| "parse_additive ts =
     (case parse_multiplicative ts of
        Some (v, r) \<Rightarrow> if length r < length ts then parse_add_rest v r else None
      | None \<Rightarrow> None)"
  by pat_completeness auto
termination
  by (relation "measures [\<lambda>x. case x of
          Inl (Inl ts) \<Rightarrow> length ts
        | Inl (Inr (v, ts)) \<Rightarrow> length ts
        | Inr (Inl ts) \<Rightarrow> length ts
        | Inr (Inr (Inl (v, ts))) \<Rightarrow> length ts
        | Inr (Inr (Inr ts)) \<Rightarrow> length ts,
      \<lambda>x. case x of
          Inl (Inl ts) \<Rightarrow> 0
        | Inl (Inr (v, ts)) \<Rightarrow> 0
        | Inr (Inl ts) \<Rightarrow> 1
        | Inr (Inr (Inl (v, ts))) \<Rightarrow> 0
        | Inr (Inr (Inr ts)) \<Rightarrow> 2]") auto

text \<open>
  The result of \<^verbatim>\<open>eval\<close>: a program without tokens evaluates to \<^verbatim>\<open>undefined\<close>, an
  expression to its value, and a text that is not an expression, or whose evaluation calls
  a value, throws.
\<close>

datatype eval_outcome = Returns js_value | Throws | Outside_model

definition js_eval :: "string \<Rightarrow> eval_outcome" where
  "js_eval source =
     (if \<not> list_all allowed_char source then Outside_model
      else case tokenize True source of
        None \<Rightarrow> Outside_model
      | Some ts \<Rightarrow>
          if ts = [] then Returns Undefined_value
          else (case parse_additive ts of
                  Some (v, []) \<Rightarrow> Returns v
                | _ \<Rightarrow> Throws))"

text \<open>
  The handler: \<open>None\<close> where the model of \<^verbatim>\<open>eval\<close> gives no answer, otherwise the
  text segments of the result. The template literal turns the result into text.
\<close>

definition calculate :: "string \<Rightarrow> string list option" where
  "calculate expression =
     (case js_eval (sanitize expression) of
        Returns result \<Rightarrow> Some [''Result: '' @ ToString result]
      | Throws \<Rightarrow> Some [''Error: Could not evaluate expression '' @ [CHR 0x27] @ expression @ [CHR 0x27]]
      | Outside_model \<Rightarrow> None)"

subsection \<open>Arithmetic expressions\<close>












section \<open>The convert tool\<close>

text \<open>
  The six arrow functions of the table \<^verbatim>\<open>conversions\<close>, with the operators in the
  order JavaScript applies them.
\<close>

datatype conversion =
  Celsius_fahrenheit | Fahrenheit_celsius | Kilometers_miles | Miles_kilometers
  | Kilograms_pounds | Pounds_kilograms

fun apply_conversion :: "conversion \<Rightarrow> js_number \<Rightarrow> js_number" where
  "apply_conversion Celsius_fahrenheit c =
     num_add (num_div (num_mul c (Number_literal 9)) (Number_literal 5)) (Number_literal 32)"
| "apply_conversion Fahrenheit_celsius f =
     num_div (num_mul (num_sub f (Number_literal 32)) (Number_literal 5)) (Number_literal 9)"
| "apply_conversion Kilometers_miles km = num_mul km (Number_literal (621371 / 10 ^ 6))"
| "apply_conversion Miles_kilometers mi = num_mul mi (Number_literal (160934 / 10 ^ 5))"
| "apply_conversion Kilograms_pounds kg = num_mul kg (Number_literal (220462 / 10 ^ 5))"
| "apply_conversion Pounds_kilograms lb = num_mul lb (Number_literal (453592 / 10 ^ 6))"

definition conversions :: "(string \<times> (string \<times> conversion) list) list" where
  "conversions =
     [(''celsius'', [(''fahrenheit'', Celsius_fahrenheit)]),
      (''fahrenheit'', [(''celsius'', Fahrenheit_celsius)]),
      (''kilometers'', [(''miles'', Kilometers_miles)]),
      (''miles'', [(''kilometers'', Miles_kilometers)]),
      (''kilograms'', [(''pounds'', Kilograms_pounds)]),
      (''pounds'', [(''kilograms'', Pounds_kilograms)])]"

text \<open>
  \<^verbatim>\<open>Number(entry[name](value))\<close> for an entry of the table and the name of a property
  of \<^verbatim>\<open>Object.prototype\<close>: \<^verbatim>\<open>constructor\<close> wraps the number;
  \<^verbatim>\<open>hasOwnProperty\<close>, \<^verbatim>\<open>isPrototypeOf\<close> and \<^verbatim>\<open>propertyIsEnumerable\<close> return
  \<^verbatim>\<open>false\<close> (the text of a number is not a key of an entry);
  \<^verbatim>\<open>__defineGetter__\<close> and \<^verbatim>\<open>__defineSetter__\<close> throw, as no function is passed;
  \<^verbatim>\<open>__proto__\<close> is an object, and calling it throws; the others return
  \<^verbatim>\<open>undefined\<close>, the entry or \<^verbatim>\<open>"[object Object]"\<close>, which \<^verbatim>\<open>Number\<close> turns
  into NaN.
\<close>

definition call_inherited :: "engine \<Rightarrow> string \<Rightarrow> js_number \<Rightarrow> thrown + js_number" where
  "call_inherited eng name v =
     (if name = ''constructor'' then Inr v
      else if name \<in> {''hasOwnProperty'', ''isPrototypeOf'', ''propertyIsEnumerable''} then Inr (Fin 0)
      else if name \<in> {''__defineGetter__'', ''__defineSetter__''}
        then Inl (Error_object (accessor_message eng name))
      else if name = ''__proto__'' then Inl (Error_object (not_a_function_message eng))
      else Inr NaN)"

text \<open>
  The handler. \<^verbatim>\<open>conversions[fromUnit] && conversions[fromUnit][toUnit]\<close> is truthy for
  a function of the table and for an inherited function or object.
\<close>

definition convert :: "engine \<Rightarrow> js_number \<Rightarrow> string \<Rightarrow> string \<Rightarrow> string list" where
  "convert eng value fromUnit toUnit =
     (let formatted = (\<lambda>result.
            [Number_toString value @ '' '' @ fromUnit @ '' = '' @ toFixed 4 result @ '' '' @ toUnit]);
          unsupported =
            [''Error: Conversion from '' @ fromUnit @ '' to '' @ toUnit @ '' is not supported.''];
          caught = (\<lambda>error. [''Error during conversion: '' @ errorMessage error])
      in case get_property conversions fromUnit of
           Undefined \<Rightarrow> unsupported
         | Own entry \<Rightarrow>
             (case get_property entry toUnit of
                Undefined \<Rightarrow> unsupported
              | Own f \<Rightarrow> formatted (apply_conversion f value)
              | Inherited name \<Rightarrow>
                  (case call_inherited eng name value of
                     Inr result \<Rightarrow> formatted result
                   | Inl error \<Rightarrow> caught error))
         | Inherited name \<Rightarrow>
             (case builtin_member eng name toUnit value of
                Member_falsy \<Rightarrow> unsupported
              | Member_called (Inr result) \<Rightarrow> formatted result
              | Member_called (Inl error) \<Rightarrow> caught error))"

text \<open>
  The supported pairs as the specification lists them: celsius and fahrenheit, kilometers and
  miles, kilograms and pounds, in both directions, each with its formula.
\<close>

definition supported_pairs :: "(string \<times> string \<times> conversion) list" where
  "supported_pairs =
     [(''celsius'', ''fahrenheit'', Celsius_fahrenheit),
      (''fahrenheit'', ''celsius'', Fahrenheit_celsius),
      (''kilometers'', ''miles'', Kilometers_miles),
      (''miles'', ''kilometers'', Miles_kilometers),
      (''kilograms'', ''pounds'', Kilograms_pounds),
      (''pounds'', ''kilograms'', Pounds_kilograms)]"

section \<open>The format-date tool\<close>

text \<open>The helper \<^verbatim>\<open>formatDate\<close>.\<close>

definition formatDate :: "js_date \<Rightarrow> string \<Rightarrow> string" where
  "formatDate date format =
     (let year = Number_toString (getFullYear date);
          month = padStart0 2 (Number_toString (num_add (getMonth date) (Number_literal 1)));
          day = padStart0 2 (Number_toString (getDate date));
          hours = padStart0 2 (Number_toString (getHours date));
          minutes = padStart0 2 (Number_toString (getMinutes date));
          seconds = padStart0 2 (Number_toString (getSeconds date))
      in replace_all ''ss'' seconds
           (replace_all ''mm'' minutes
             (replace_all ''HH'' hours
               (replace_all ''DD'' day
                 (replace_all ''MM'' month
                   (replace_all ''YYYY'' year format))))))"

text \<open>\<^verbatim>\<open>date.toISOString()\<close> throws a \<^verbatim>\<open>RangeError\<close> on an invalid date.\<close>

fun toISOString :: "engine \<Rightarrow> js_date \<Rightarrow> thrown + string" where
  "toISOString eng Invalid_Date = Inl (Error_object (invalid_time_message eng))"
| "toISOString eng (Valid_Date d) = Inr (isoString d)"

text \<open>An optional text is truthy when it is given and not empty.\<close>

fun truthy :: "string option \<Rightarrow> bool" where
  "truthy None = False"
| "truthy (Some s) = (s \<noteq> [])"

definition format_date :: "engine \<Rightarrow> string option \<Rightarrow> string option \<Rightarrow> string list" where
  "format_date eng date format =
     (let inputDate = (if truthy date then Date_parse eng (the date) else Date_now eng)
      in if truthy format then [formatDate inputDate (the format)]
         else (case toISOString eng inputDate of
                 Inr formattedDate \<Rightarrow> [formattedDate]
               | Inl error \<Rightarrow> [''Error formatting date: '' @ errorMessage error]))"

section \<open>The nl-to-sql tool\<close>

text \<open>\<^verbatim>\<open>process.env.GEMINI_API_KEY || ''\<close>\<close>

definition GEMINI_API_KEY :: "string option \<Rightarrow> string" where
  "GEMINI_API_KEY env = (case env of None \<Rightarrow> [] | Some k \<Rightarrow> k)"

definition preamble :: string where
  "preamble = ''You are a SQL expert that converts natural language queries to precise SQL. '' @
     ''Based on the following database schema:'' @ LF @ LF"

definition table_block :: "string \<times> string \<Rightarrow> string" where
  "table_block = (\<lambda>(tableName, ddl). ''Table: '' @ tableName @ LF @ ddl @ LF @ LF)"

definition query_block :: "string \<Rightarrow> string" where
  "query_block query =
     ''Convert this natural language query to valid SQL:'' @ LF @ DQ @ query @ DQ @ LF @ LF"

definition sql_only_instruction :: string where
  "sql_only_instruction = ''Respond only with the SQL query, no explanation or other text.''"

text \<open>
  The prompt as the handler assembles it: \<^verbatim>\<open>promptText\<close> starts as the preamble and is
  extended by \<^verbatim>\<open>+=\<close>, once per entry in the \<^verbatim>\<open>forEach\<close>, then by the query and the
  instruction.
\<close>

definition promptText :: "js_object \<Rightarrow> string \<Rightarrow> string" where
  "promptText schemas query =
     (let p0 = ''You are a SQL expert that converts natural language queries to precise SQL. '';
          p1 = p0 @ ''Based on the following database schema:'' @ LF @ LF;
          p2 = foldl (\<lambda>p (tableName, ddl). p @ ''Table: '' @ tableName @ LF @ ddl @ LF @ LF)
                 p1 (Object_entries schemas);
          p3 = p2 @ ''Convert this natural language query to valid SQL:'' @ LF @ DQ @ query @ DQ @ LF @ LF
      in p3 @ ''Respond only with the SQL query, no explanation or other text.'')"

text \<open>
  The handler's result is the list of text segments of \<^verbatim>\<open>content\<close>; beside it the model
  returns the prompts passed to the remote completion client, in order. The client
  (\<^verbatim>\<open>model.generateContent(promptText)\<close>, then \<^verbatim>\<open>result.response\<close> and
  \<^verbatim>\<open>response.text()\<close>) is a parameter: it yields the completion text or throws.
\<close>

record handler_run =
  content :: "string list"
  remote_calls :: "string list"

definition key_missing_text :: string where
  "key_missing_text = ''Error: GEMINI_API_KEY is not set in environment variables. '' @
     ''The nl-to-sql tool cannot function without it.''"

definition no_schemas_text :: string where
  "no_schemas_text = ''Error: Database schemas not loaded. '' @
     ''Please ensure SQL schema files exist in the app/schemas directory.''"

definition nl_to_sql ::
  "string option \<Rightarrow> js_object \<Rightarrow> (string \<Rightarrow> thrown + string) \<Rightarrow> string \<Rightarrow> handler_run" where
  "nl_to_sql env databaseSchemas generateContent query =
     (if GEMINI_API_KEY env = [] then
        \<lparr>content = [''Error: GEMINI_API_KEY is not set in environment variables. '' @
                     ''The nl-to-sql tool cannot function without it.''],
         remote_calls = []\<rparr>
      else if length (Object_keys databaseSchemas) = 0 then
        \<lparr>content = [''Error: Database schemas not loaded. '' @
                     ''Please ensure SQL schema files exist in the app/schemas directory.''],
         remote_calls = []\<rparr>
      else
        (let prompt = promptText databaseSchemas query in
         case generateContent prompt of
           Inr text \<Rightarrow>
             \<lparr>content = [trim text,
                         LF @ LF @ ''Generated from natural language query: '' @ query],
              remote_calls = [prompt]\<rparr>
         | Inl error \<Rightarrow>
             \<lparr>content = [''Error generating SQL from natural language: '' @ errorMessage error],
              remote_calls = [prompt]\<rparr>))"

section \<open>Sample inputs\<close>

text \<open>A directory with two definition files, the second of which cannot be read.\<close>

definition fs_second_read_fails :: file_system where
  "fs_second_read_fails =
     \<lparr>readdir = Inr [''a.sql'', ''b.sql''],
      readFile = (\<lambda>file. if file = ''a.sql'' then Inr ''CREATE TABLE a (id INT);''
                         else Inl (Error_object ''EACCES: permission denied''))\<rparr>"

text \<open>A directory whose only file has \<^verbatim>\<open>.sql\<close> inside its name as well as at its end.\<close>

definition fs_inner_sql :: file_system where
  "fs_inner_sql =
     \<lparr>readdir = Inr [''orders.sqlite.sql''],
      readFile = (\<lambda>file. Inr ''CREATE TABLE orders (id INT);'')\<rparr>"

text \<open>A completion client that always answers, and one loaded schema.\<close>

definition answering_client :: "string \<Rightarrow> thrown + string" where
  "answering_client prompt = Inr ''SELECT * FROM departments;''"

definition one_schema :: js_object where
  "one_schema = [(''departments'', ''CREATE TABLE departments (id INT);'')]"

text \<open>
  An engine with V8's messages, which parses one date text and rejects the others, and in
  which the functions of \<^verbatim>\<open>Object.prototype\<close> have no truthy member.
\<close>

definition sample_engine :: engine where
  "sample_engine =
     \<lparr>not_a_function_message = ''conversions[fromUnit][toUnit] is not a function'',
      accessor_message = (\<lambda>name. ''Object.prototype.'' @ name @ '': Expecting function''),
      invalid_time_message = ''Invalid time value'',
      builtin_member = (\<lambda>name member v. Member_falsy),
      Date_parse = (\<lambda>text. if text = ''2024-01-15T10:30:00''
         then Valid_Date \<lparr>fullYear = 2024, monthIndex = 0, dayOfMonth = 15, hours = 10,
                minutes = 30, seconds = 0, isoString = ''2024-01-15T10:30:00.000Z''\<rparr>
         else Invalid_Date),
      Date_now = Valid_Date \<lparr>fullYear = 2026, monthIndex = 10, dayOfMonth = 3, hours = 12,
                minutes = 0, seconds = 0, isoString = ''2026-11-03T12:00:00.000Z''\<rparr>\<rparr>"

section \<open>Rounding is monotone\<close>

lemma ilog2_bounds:
  assumes "0 < x"
  shows "2 powi (ilog2 x) \<le> x \<and> x < 2 powi (ilog2 x + 1)"
proof (cases "1 \<le> x")
  case True
  define n where "n = \<lfloor>x\<rfloor>"
  have n: "0 < n" using True by (simp add: n_def)
  then have b: "1 \<le> bitlen n" by (simp add: bitlen_alt_def)
  from bitlen_bounds [OF n]
  have lo: "2 ^ nat (bitlen n - 1) \<le> n" and hi: "n < 2 ^ nat (bitlen n)" by auto
  have "2 powi (bitlen n - 1) = (2::real) ^ nat (bitlen n - 1)"
    using b by (simp add: power_int_def)
  also have "\<dots> \<le> of_int n" using lo
    by (metis of_int_le_iff of_int_numeral of_int_power)
  also have "\<dots> \<le> x" by (simp add: n_def)
  finally have 1: "2 powi (bitlen n - 1) \<le> x" .
  have "n + 1 \<le> 2 ^ nat (bitlen n)" using hi by simp
  then have "of_int (n + 1) \<le> (2::real) ^ nat (bitlen n)"
    by (metis of_int_le_iff of_int_numeral of_int_power)
  moreover have "x < of_int (n + 1)" by (simp add: n_def)
  ultimately have "x < (2::real) ^ nat (bitlen n)" by linarith
  also have "\<dots> = 2 powi (bitlen n - 1 + 1)" using b by (simp add: power_int_def)
  finally have 2: "x < 2 powi (bitlen n - 1 + 1)" .
  from 1 2 True show ?thesis by (simp add: ilog2_def n_def)
next
  case False
  define N where "N = \<lceil>1 / x\<rceil> - 1"
  have y: "1 < 1 / x" using False assms by simp
  then have N: "0 < N" unfolding N_def by (smt (verit) less_ceiling_iff of_int_1)
  then have b: "1 \<le> bitlen N" by (simp add: bitlen_alt_def)
  from bitlen_bounds [OF N]
  have lo: "2 ^ nat (bitlen N - 1) \<le> N" and hi: "N < 2 ^ nat (bitlen N)" by auto
  have "N + 1 \<le> 2 ^ nat (bitlen N)" using hi by simp
  then have "of_int (N + 1) \<le> (2::real) ^ nat (bitlen N)"
    by (metis of_int_le_iff of_int_numeral of_int_power)
  moreover have "1 / x \<le> of_int (N + 1)" by (simp add: N_def)
  ultimately have "1 / x \<le> (2::real) ^ nat (bitlen N)" by linarith
  then have "1 / 2 ^ nat (bitlen N) \<le> x"
    using assms by (simp add: field_simps)
  moreover have "2 powi (- bitlen N) = 1 / (2::real) ^ nat (bitlen N)"
    using b by (simp add: power_int_def field_simps)
  ultimately have 1: "2 powi (- bitlen N) \<le> x" by simp
  have "(2::real) ^ nat (bitlen N - 1) \<le> of_int N" using lo
    by (metis of_int_le_iff of_int_numeral of_int_power)
  moreover have "of_int N < 1 / x" unfolding N_def by linarith
  ultimately have "(2::real) ^ nat (bitlen N - 1) < 1 / x" by linarith
  then have "x < 1 / 2 ^ nat (bitlen N - 1)"
    using assms by (simp add: field_simps)
  moreover have "2 powi (- bitlen N + 1) = 1 / (2::real) ^ nat (bitlen N - 1)"
    using b by (simp add: power_int_def field_simps)
  ultimately have 2: "x < 2 powi (- bitlen N + 1)" by simp
  from 1 2 False show ?thesis by (simp add: ilog2_def N_def)
qed

lemma pow2_less_cancel:
  "(2::real) powi a < 2 powi b \<Longrightarrow> a < b"
  by (rule ccontr) (use power_int_increasing [of b a "2::real"] in simp)

lemma pow2_mono:
  "a \<le> b \<Longrightarrow> (2::real) powi a \<le> 2 powi b"
  by (rule power_int_increasing) simp_all

lemma ilog2_unique:
  assumes "0 < x" "2 powi e \<le> x" "x < 2 powi (e + 1)"
  shows "ilog2 x = e"
proof -
  from ilog2_bounds [OF assms(1)]
  have 1: "2 powi (ilog2 x) \<le> x" and 2: "x < 2 powi (ilog2 x + 1)" by auto
  have "(2::real) powi e < 2 powi (ilog2 x + 1)" using assms(2) 2 by linarith
  then have a: "e < ilog2 x + 1" by (rule pow2_less_cancel)
  have "(2::real) powi (ilog2 x) < 2 powi (e + 1)" using assms(3) 1 by linarith
  then have b: "ilog2 x < e + 1" by (rule pow2_less_cancel)
  from a b show ?thesis by simp
qed

lemma ilog2_mono:
  assumes "0 < x" "x \<le> y"
  shows "ilog2 x \<le> ilog2 y"
proof -
  have y: "0 < y" using assms by simp
  have "2 powi (ilog2 x) \<le> x" using ilog2_bounds [OF assms(1)] by simp
  also have "x \<le> y" by fact
  also have "y < 2 powi (ilog2 y + 1)" using ilog2_bounds [OF y] by simp
  finally have "ilog2 x < ilog2 y + 1" by (rule pow2_less_cancel)
  then show ?thesis by simp
qed

lemma round_half_even_bounds:
  "real_of_int (round_half_even x) \<le> x + 1 / 2 \<and> x - 1 / 2 \<le> real_of_int (round_half_even x)"
  unfolding round_half_even_def Let_def by (auto; linarith)

lemma round_half_even_of_int [simp]:
  "round_half_even (of_int n) = n"
  by (simp add: round_half_even_def)

lemma round_half_even_mono:
  assumes "x \<le> y"
  shows "round_half_even x \<le> round_half_even y"
proof (cases "\<lfloor>x\<rfloor> = \<lfloor>y\<rfloor>")
  case True
  with assms show ?thesis
    unfolding round_half_even_def Let_def by auto
next
  case False
  then have "\<lfloor>x\<rfloor> + 1 \<le> \<lfloor>y\<rfloor>" using assms floor_mono [of x y] by linarith
  moreover have "round_half_even x \<le> \<lfloor>x\<rfloor> + 1"
    unfolding round_half_even_def Let_def by auto
  moreover have "\<lfloor>y\<rfloor> \<le> round_half_even y"
    unfolding round_half_even_def Let_def by auto
  ultimately show ?thesis by linarith
qed

lemma round_half_even_le_int:
  "x \<le> of_int n \<Longrightarrow> round_half_even x \<le> n"
  using round_half_even_mono [of x "of_int n"] by simp

lemma round_half_even_ge_int:
  "of_int n \<le> x \<Longrightarrow> n \<le> round_half_even x"
  using round_half_even_mono [of "of_int n" x] by simp

lemma round_pos_upper:
  assumes "0 < x"
  shows "round_pos x \<le> 2 powi (quantum x + 53)"
proof -
  let ?q = "quantum x"
  have p: "(0::real) < 2 powi ?q" by simp
  have "x < 2 powi (ilog2 x + 1)" using ilog2_bounds [OF assms] by simp
  also have "\<dots> \<le> 2 powi (?q + 53)" by (rule pow2_mono) (simp add: quantum_def)
  finally have "x / 2 powi ?q \<le> 2 powi (?q + 53) / 2 powi ?q"
    using p by (simp add: divide_right_mono)
  also have "\<dots> = 2 ^ 53" by (simp add: power_int_add)
  also have "\<dots> = real_of_int (2 ^ 53)" by simp
  finally have "round_half_even (x / 2 powi ?q) \<le> 2 ^ 53" by (rule round_half_even_le_int)
  then have "real_of_int (round_half_even (x / 2 powi ?q)) \<le> 2 ^ 53"
    by (metis of_int_le_iff of_int_numeral of_int_power)
  then have "round_pos x \<le> 2 ^ 53 * 2 powi ?q"
    unfolding round_pos_def using p by (simp add: mult_right_mono)
  also have "\<dots> = 2 powi (?q + 53)" by (simp add: power_int_add)
  finally show ?thesis .
qed

lemma round_pos_lower:
  assumes "0 < x" "- 1022 \<le> ilog2 x"
  shows "2 powi (quantum x + 52) \<le> round_pos x"
proof -
  let ?q = "quantum x"
  have q: "?q + 52 = ilog2 x" using assms(2) by (simp add: quantum_def)
  have p: "(0::real) < 2 powi ?q" by simp
  have "2 powi (?q + 52) \<le> x" using ilog2_bounds [OF assms(1)] q by simp
  then have "2 powi (?q + 52) / 2 powi ?q \<le> x / 2 powi ?q"
    using p by (simp add: divide_right_mono)
  moreover have "2 powi (?q + 52) / 2 powi ?q = real_of_int (2 ^ 52)" by (simp add: power_int_add)
  ultimately have "real_of_int (2 ^ 52) \<le> x / 2 powi ?q" by simp
  then have "2 ^ 52 \<le> round_half_even (x / 2 powi ?q)" by (rule round_half_even_ge_int)
  then have "(2::real) ^ 52 \<le> real_of_int (round_half_even (x / 2 powi ?q))"
    by (metis of_int_le_iff of_int_numeral of_int_power)
  then have "2 ^ 52 * 2 powi ?q \<le> round_pos x"
    unfolding round_pos_def using p by (simp add: mult_right_mono)
  moreover have "2 ^ 52 * 2 powi ?q = (2::real) powi (?q + 52)" by (simp add: power_int_add)
  ultimately show ?thesis by simp
qed

lemma round_pos_nonneg:
  assumes "0 < x"
  shows "0 \<le> round_pos x"
proof -
  have "0 \<le> x / 2 powi quantum x" using assms by simp
  then have "0 \<le> round_half_even (x / 2 powi quantum x)"
    using round_half_even_ge_int [of 0] by simp
  then show ?thesis unfolding round_pos_def by simp
qed

lemma round_pos_mono:
  assumes "0 < x" "x \<le> y"
  shows "round_pos x \<le> round_pos y"
proof -
  have y: "0 < y" using assms by simp
  have qm: "quantum x \<le> quantum y"
    using ilog2_mono [OF assms] by (simp add: quantum_def)
  show ?thesis
  proof (cases "quantum x = quantum y")
    case True
    have "x / 2 powi quantum y \<le> y / 2 powi quantum y"
      using assms(2) by (simp add: divide_right_mono)
    then have "round_half_even (x / 2 powi quantum y) \<le> round_half_even (y / 2 powi quantum y)"
      by (rule round_half_even_mono)
    then show ?thesis unfolding round_pos_def True
      by (simp add: mult_right_mono)
  next
    case False
    with qm have lt: "quantum x < quantum y" by simp
    then have "- 1022 \<le> ilog2 y" unfolding quantum_def by linarith
    then have "2 powi (quantum y + 52) \<le> round_pos y" using round_pos_lower [OF y] by simp
    moreover have "round_pos x \<le> 2 powi (quantum x + 53)" by (rule round_pos_upper [OF assms(1)])
    moreover have "(2::real) powi (quantum x + 53) \<le> 2 powi (quantum y + 52)"
      using lt by (intro pow2_mono) simp
    ultimately show ?thesis by linarith
  qed
qed

lemma fl_mono:
  assumes "x \<le> y"
  shows "num_le (fl x) (fl y)"
proof -
  consider "x = 0" | "0 < x" | "x < 0" by linarith
  then show ?thesis
  proof cases
    case 1
    then show ?thesis using assms round_pos_nonneg [of y]
      by (auto simp: fl_def Let_def)
  next
    case 2
    then have "round_pos x \<le> round_pos y" using assms by (rule round_pos_mono)
    then show ?thesis using 2 assms by (auto simp: fl_def Let_def)
  next
    case 3
    show ?thesis
    proof (cases "y < 0")
      case True
      then have "round_pos (- y) \<le> round_pos (- x)"
        using assms by (intro round_pos_mono) simp_all
      then show ?thesis using 3 True round_pos_nonneg [of "- y"] round_pos_nonneg [of "- x"]
        by (auto simp: fl_def Let_def)
    next
      case False
      then show ?thesis using 3 round_pos_nonneg [of y] round_pos_nonneg [of "- x"]
        by (auto simp: fl_def Let_def)
    qed
  qed
qed


section \<open>Rounding at given values\<close>

lemma round_half_even_unique:
  assumes "\<bar>z - real_of_int m\<bar> < 1 / 2"
  shows "round_half_even z = m"
proof -
  have lo: "real_of_int m - 1 / 2 < z" and hi: "z < real_of_int m + 1 / 2"
    using assms by linarith+
  have "real_of_int (m - 1) \<le> z" using lo by simp
  then have "m - 1 \<le> \<lfloor>z\<rfloor>" by (simp only: le_floor_iff)
  moreover have "z < real_of_int (m + 1)" using hi by simp
  then have "\<lfloor>z\<rfloor> < m + 1" by (simp only: floor_less_iff)
  ultimately consider "\<lfloor>z\<rfloor> = m" | "\<lfloor>z\<rfloor> = m - 1" by linarith
  then show ?thesis
  proof cases
    case 1
    then show ?thesis using hi unfolding round_half_even_def Let_def by simp
  next
    case 2
    then show ?thesis using lo unfolding round_half_even_def Let_def by simp
  qed
qed

lemma fl_exact:
  assumes "0 < m" "m < 2 ^ 53" "- 1074 \<le> q" "x = real_of_int m * 2 powi q" "x < 2 powi 1024"
  shows "fl x = Fin x"
proof -
  have x: "0 < x" using assms by simp
  have "x < 2 ^ 53 * 2 powi q"
    using assms(2,4) by simp
  also have "\<dots> = 2 powi (q + 53)" by (simp add: power_int_add)
  finally have "2 powi (ilog2 x) < (2::real) powi (q + 53)"
    using ilog2_bounds [OF x] by linarith
  then have "ilog2 x < q + 53" by (rule pow2_less_cancel)
  then have qu: "quantum x \<le> q" using assms(3) by (simp add: quantum_def)
  define d where "d = nat (q - quantum x)"
  have "x / 2 powi quantum x = real_of_int m * 2 powi (q - quantum x)"
    using assms(4) by (simp add: power_int_diff)
  also have "2 powi (q - quantum x) = (2::real) ^ d"
    using qu by (simp add: d_def power_int_def)
  finally have "x / 2 powi quantum x = real_of_int (m * 2 ^ d)" by simp
  then have "round_pos x = real_of_int (m * 2 ^ d) * 2 powi quantum x"
    unfolding round_pos_def by (simp only: round_half_even_of_int)
  also have "\<dots> = x / 2 powi quantum x * 2 powi quantum x"
    using \<open>x / 2 powi quantum x = real_of_int (m * 2 ^ d)\<close> by simp
  also have "\<dots> = x" by simp
  finally have "round_pos x = x" .
  then show ?thesis using x assms(5) by (simp add: fl_def)
qed

lemma fl_nearest:
  assumes "2 powi e \<le> x" "x < 2 powi (e + 1)" "- 1022 \<le> e"
    and "\<bar>x / 2 powi (e - 52) - real_of_int m\<bar> < 1 / 2"
    and "real_of_int m * 2 powi (e - 52) < 2 powi 1024"
  shows "fl x = Fin (real_of_int m * 2 powi (e - 52))"
proof -
  have x: "0 < x" using assms(1) by (smt (verit) zero_less_power_int)
  have e: "ilog2 x = e" using x assms(1,2) by (rule ilog2_unique)
  then have q: "quantum x = e - 52" using assms(3) by (simp add: quantum_def)
  have "round_pos x = real_of_int m * 2 powi (e - 52)"
    unfolding round_pos_def q using round_half_even_unique [OF assms(4)] by simp
  then show ?thesis using x assms(5) by (simp add: fl_def)
qed

lemma fl_integer:
  assumes "0 < m" "m < 2 ^ 53"
  shows "fl (real_of_int m) = Fin (real_of_int m)"
proof (rule fl_exact [where m = m and q = 0])
  have "real_of_int m < 2 ^ 53" using assms(2)
    by (metis of_int_less_iff of_int_numeral of_int_power)
  also have "\<dots> < 2 powi 1024" by simp
  finally show "real_of_int m < 2 powi 1024" .
qed (use assms in simp_all)

lemma literal_9: "Number_literal 9 = Fin 9" and literal_5: "Number_literal 5 = Fin 5"
  and literal_32: "Number_literal 32 = Fin 32" and literal_1: "Number_literal 1 = Fin 1"
  using fl_integer [of 9] fl_integer [of 5] fl_integer [of 32] fl_integer [of 1]
  by (simp_all add: Number_literal_def)

lemma fl_small_integers:
  "fl 2 = Fin 2" "fl 4 = Fin 4" "fl 32 = Fin 32"
  using fl_integer [of 2] fl_integer [of 4] fl_integer [of 32] by simp_all

lemma c_to_f_0: "apply_conversion Celsius_fahrenheit (Fin 0) = Fin 32"
  by (simp add: literal_9 literal_5 literal_32 num_mul_def num_div_def signed_zero_def
      fl_small_integers)

lemma fl_45: "fl (45 / 2 ^ 60) = Fin (45 / 2 ^ 60)"
  by (rule fl_exact [where m = 45 and q = "- 60"]) (simp_all add: power_int_minus_divide)

lemma fl_9: "fl (9 / 2 ^ 60) = Fin (9 / 2 ^ 60)"
  by (rule fl_exact [where m = 9 and q = "- 60"]) (simp_all add: power_int_minus_divide)

lemma fl_32_tiny: "fl (9 / 2 ^ 60 + 32) = Fin 32"
  using fl_nearest [where e = 5 and m = "2 ^ 52" and x = "9 / 2 ^ 60 + 32"]
  by (simp add: power_int_minus_divide)

lemma c_to_f_tiny: "apply_conversion Celsius_fahrenheit (Fin (5 / 2 ^ 60)) = Fin 32"
proof -
  have "num_mul (Fin (5 / 2 ^ 60)) (Fin 9) = fl (5 / 2 ^ 60 * 9)"
    by (simp add: num_mul_def)
  also have "5 / 2 ^ 60 * 9 = (45 / 2 ^ 60 :: real)" by simp
  finally have 1: "num_mul (Fin (5 / 2 ^ 60)) (Fin 9) = Fin (45 / 2 ^ 60)"
    by (simp only: fl_45)
  have "num_div (Fin (45 / 2 ^ 60)) (Fin 5) = fl (45 / 2 ^ 60 / 5)"
    by (simp add: num_div_def)
  also have "45 / 2 ^ 60 / 5 = (9 / 2 ^ 60 :: real)" by simp
  finally have 2: "num_div (Fin (45 / 2 ^ 60)) (Fin 5) = Fin (9 / 2 ^ 60)"
    by (simp only: fl_9)
  have 3: "num_add (Fin (9 / 2 ^ 60)) (Fin 32) = Fin 32"
    by (simp only: num_add.simps fl_32_tiny)
  show ?thesis
    by (simp only: apply_conversion.simps literal_9 literal_5 literal_32 1 2 3)
qed

section \<open>The conversions are monotone\<close>

lemma fl_not_NaN [simp]: "fl x \<noteq> NaN"
  by (auto simp: fl_def Let_def)

lemma fl_0 [simp]: "fl 0 = Fin 0"
  by (simp add: fl_def)

lemma fl_sign:
  "0 \<le> x \<Longrightarrow> num_le (Fin 0) (fl x)" "x \<le> 0 \<Longrightarrow> num_le (fl x) (Fin 0)"
  using fl_mono [of 0 x] fl_mono [of x 0] by simp_all

lemma num_le_NegZero:
  "num_le a NegZero = num_le a (Fin 0)" "num_le NegZero b = num_le (Fin 0) b"
  by (cases a; simp) (cases b; simp)

lemma fl_bracket:
  assumes "l \<le> x" "x \<le> u" "fl l = Fin l" "fl u = Fin u" "0 < l"
  shows "\<exists>c. fl x = Fin c \<and> l \<le> c \<and> c \<le> u"
proof -
  have 1: "num_le (Fin l) (fl x)" using fl_mono [OF assms(1)] assms(3) by simp
  have 2: "num_le (fl x) (Fin u)" using fl_mono [OF assms(2)] assms(4) by simp
  show ?thesis using 1 2 assms(5) by (cases "fl x") simp_all
qed

lemma fl_quarter: "fl (1 / 4) = Fin (1 / 4)"
  by (rule fl_exact [where m = 1 and q = "- 2"]) (simp_all add: power_int_minus_divide)

lemma literal_factor:
  assumes "1 / 4 \<le> x" "x \<le> 4"
  shows "\<exists>c. Number_literal x = Fin c \<and> 0 < c"
  using fl_bracket [OF assms fl_quarter fl_small_integers(2)]
  unfolding Number_literal_def by auto

lemma num_mul_mono:
  assumes "0 < k" "num_le a b"
  shows "num_le (num_mul a (Fin k)) (num_mul b (Fin k))"
proof -
  have m: "\<And>x y. x \<le> y \<Longrightarrow> num_le (fl (x * k)) (fl (y * k))"
    using assms(1) by (intro fl_mono) simp
  have p: "\<And>y. 0 \<le> y \<Longrightarrow> num_le (Fin 0) (fl (y * k))"
    using assms(1) by (intro fl_sign) simp
  have n: "\<And>x. x \<le> 0 \<Longrightarrow> num_le (fl (x * k)) (Fin 0)"
    using assms(1) by (intro fl_sign) (simp add: mult_le_0_iff)
  have i: "\<And>x. num_le (fl x) PInf" "\<And>x. num_le NInf (fl x)"
    subgoal for x by (cases "fl x") simp_all
    subgoal for x by (cases "fl x") simp_all
    done
  show ?thesis
    using assms m p n i
    by (cases a; cases b)
      (auto simp: num_mul_def signed_inf_def signed_zero_def num_le_NegZero)
qed

lemma fl_le_inf: "num_le (fl x) PInf" "num_le NInf (fl x)"
proof -
  show "num_le (fl x) PInf" by (cases "fl x") simp_all
  show "num_le NInf (fl x)" by (cases "fl x") simp_all
qed

lemma fl_neg_exact:
  assumes "0 < x" "fl x = Fin x"
  shows "fl (- x) = Fin (- x)"
proof -
  have "round_pos x = x \<and> \<not> 2 powi 1024 \<le> round_pos x"
    using assms by (auto simp: fl_def Let_def split: if_splits)
  then show ?thesis using assms(1) by (simp add: fl_def)
qed

lemma num_div_mono:
  assumes "0 < k" "num_le a b"
  shows "num_le (num_div a (Fin k)) (num_div b (Fin k))"
proof -
  have m: "\<And>x y. x \<le> y \<Longrightarrow> num_le (fl (x / k)) (fl (y / k))"
    using assms(1) by (intro fl_mono) (simp add: divide_right_mono)
  have p: "\<And>y. 0 \<le> y \<Longrightarrow> num_le (Fin 0) (fl (y / k))"
    using assms(1) by (intro fl_sign) simp
  have n: "\<And>x. x \<le> 0 \<Longrightarrow> num_le (fl (x / k)) (Fin 0)"
    using assms(1) by (intro fl_sign) (simp add: divide_le_0_iff)
  show ?thesis
    using assms m p n fl_le_inf
    by (cases a; cases b)
      (auto simp: num_div_def signed_inf_def signed_zero_def num_le_NegZero)
qed

lemma num_add_mono:
  assumes "fl k = Fin k" "num_le a b"
  shows "num_le (num_add a (Fin k)) (num_add b (Fin k))"
proof -
  have m: "\<And>x y. x \<le> y \<Longrightarrow> num_le (fl (x + k)) (fl (y + k))"
    by (intro fl_mono) simp
  have p: "num_le (Fin k) (fl (y + k))" if "0 \<le> y" for y
    using fl_mono [of k "y + k"] assms(1) that by simp
  have n: "num_le (fl (x + k)) (Fin k)" if "x \<le> 0" for x
    using fl_mono [of "x + k" k] assms(1) that by simp
  show ?thesis
    using assms(2) m p n fl_le_inf
    by (cases a; cases b) (auto simp: num_le_NegZero)
qed

lemma num_sub_32_mono:
  assumes "num_le a b"
  shows "num_le (num_sub a (Fin 32)) (num_sub b (Fin 32))"
proof -
  have "fl (- 32) = Fin (- 32)"
    using fl_neg_exact [of 32] fl_small_integers(3) by simp
  then show ?thesis
    using num_add_mono [OF _ assms, of "- 32"] by (simp add: num_sub_def)
qed

text \<open>
  C6, amended. Every conversion function of the table is monotone in the weak sense: for
  all numbers \<open>a\<close> and \<open>b\<close> with \<open>a \<le> b\<close> (as \<^verbatim>\<open><=\<close> compares them), the result for
  \<open>a\<close> is at most the result for \<open>b\<close>. Each operation of a formula rounds its exact
  result, and rounding preserves the order but not strictness.
\<close>

theorem conversions_monotone:
  assumes "num_le a b"
  shows "num_le (apply_conversion f a) (apply_conversion f b)"
proof (cases f)
  case Celsius_fahrenheit
  have "num_le (num_mul a (Fin 9)) (num_mul b (Fin 9))"
    using assms by (intro num_mul_mono) simp_all
  then have "num_le (num_div (num_mul a (Fin 9)) (Fin 5)) (num_div (num_mul b (Fin 9)) (Fin 5))"
    by (intro num_div_mono) simp_all
  then show ?thesis
    unfolding Celsius_fahrenheit apply_conversion.simps literal_9 literal_5 literal_32
    by (intro num_add_mono fl_small_integers)
next
  case Fahrenheit_celsius
  have "num_le (num_sub a (Fin 32)) (num_sub b (Fin 32))"
    using assms by (rule num_sub_32_mono)
  then have "num_le (num_mul (num_sub a (Fin 32)) (Fin 5)) (num_mul (num_sub b (Fin 32)) (Fin 5))"
    by (intro num_mul_mono) simp_all
  then show ?thesis
    unfolding Fahrenheit_celsius apply_conversion.simps literal_9 literal_5 literal_32
    by (intro num_div_mono) simp_all
next
  case Kilometers_miles
  obtain c where "Number_literal (621371 / 10 ^ 6) = Fin c" "0 < c"
    using literal_factor [of "621371 / 10 ^ 6"] by auto
  then show ?thesis
    unfolding Kilometers_miles apply_conversion.simps using assms by (simp add: num_mul_mono)
next
  case Miles_kilometers
  obtain c where "Number_literal (160934 / 10 ^ 5) = Fin c" "0 < c"
    using literal_factor [of "160934 / 10 ^ 5"] by auto
  then show ?thesis
    unfolding Miles_kilometers apply_conversion.simps using assms by (simp add: num_mul_mono)
next
  case Kilograms_pounds
  obtain c where "Number_literal (220462 / 10 ^ 5) = Fin c" "0 < c"
    using literal_factor [of "220462 / 10 ^ 5"] by auto
  then show ?thesis
    unfolding Kilograms_pounds apply_conversion.simps using assms by (simp add: num_mul_mono)
next
  case Pounds_kilograms
  obtain c where "Number_literal (453592 / 10 ^ 6) = Fin c" "0 < c"
    using literal_factor [of "453592 / 10 ^ 6"] by auto
  then show ?thesis
    unfolding Pounds_kilograms apply_conversion.simps using assms by (simp add: num_mul_mono)
qed

lemma fl_5_tiny: "fl (5 / 2 ^ 60) = Fin (5 / 2 ^ 60)"
  by (rule fl_exact [where m = 5 and q = "- 60"]) (simp_all add: power_int_minus_divide)

text \<open>
  C6, as stated, fails: \<open>0 < 5 / 2 ^ 60\<close>, both are numbers of the format, and celsius to
  fahrenheit maps both to 32, since adding 32 absorbs the smaller term.
\<close>

theorem strict_monotonicity_counterexample:
  "fl (5 / 2 ^ 60) = Fin (5 / 2 ^ 60)
   \<and> num_lt (Fin 0) (Fin (5 / 2 ^ 60))
   \<and> apply_conversion Celsius_fahrenheit (Fin 0) = Fin 32
   \<and> apply_conversion Celsius_fahrenheit (Fin (5 / 2 ^ 60)) = Fin 32
   \<and> \<not> num_lt (apply_conversion Celsius_fahrenheit (Fin 0))
           (apply_conversion Celsius_fahrenheit (Fin (5 / 2 ^ 60)))"
  by (simp only: c_to_f_0 c_to_f_tiny fl_5_tiny) simp

lemma c_to_f_5: "apply_conversion Celsius_fahrenheit (Fin 5) = Fin 41"
proof -
  have "fl 45 = Fin 45" "fl 9 = Fin 9" "fl 41 = Fin 41"
    using fl_integer [of 45] fl_integer [of 9] fl_integer [of 41] by simp_all
  then show ?thesis
    by (simp add: literal_9 literal_5 literal_32 num_mul_def num_div_def)
qed

theorem conversions_monotone_witness:
  "num_le (Fin 0) (Fin 5)
   \<and> num_le (apply_conversion Celsius_fahrenheit (Fin 0)) (apply_conversion Celsius_fahrenheit (Fin 5))
   \<and> apply_conversion Celsius_fahrenheit (Fin 0) = Fin 32
   \<and> apply_conversion Celsius_fahrenheit (Fin 5) = Fin 41"
proof -
  have h: "num_le (Fin 0) (Fin 5)" by simp
  show ?thesis
    using conversions_monotone [OF h, of Celsius_fahrenheit] h c_to_f_0 c_to_f_5 by simp
qed

section \<open>Numbers as text at given values\<close>

lemma floorlog_numeral:
  "floorlog 10 (numeral k) = (if (numeral k :: nat) > 0 then floorlog 10 (numeral k div 10) + 1 else 0)"
  by (subst compute_floorlog) simp

lemma floorlog_small: "floorlog 10 0 = 0" "floorlog 10 1 = 1" "floorlog 10 (Suc 0) = 1"
  by (simp_all add: compute_floorlog)

lemma string_of_nat_numeral:
  "string_of_nat (numeral k) =
     (if (numeral k :: nat) < 10 then [digit_char (numeral k)]
      else string_of_nat (numeral k div 10) @ [digit_char (numeral k mod 10)])"
  by (subst string_of_nat.simps) simp

lemma string_of_nat_small: "string_of_nat 0 = ''0''" "string_of_nat 1 = ''1''" "string_of_nat (Suc 0) = ''1''"
  by (simp_all add: string_of_nat.simps digit_char_def)

lemmas digits_eval = string_of_nat_numeral string_of_nat_small digit_char_def

lemma shortest_digits_exact:
  assumes "x = real_of_int s * 10 powi (n - int k)" "fl x = Fin x"
  shows "shortest_digits x n k (Suc fuel) = (nat s, n)"
proof -
  define c :: real where "c = 10 powi (n - int k)"
  have p: "0 < c" by (simp add: c_def)
  have x: "x = real_of_int s * c" using assms(1) by (simp add: c_def)
  have lo: "\<lfloor>x / c\<rfloor> = s" using p by (simp add: x)
  have d_lo: "x - real_of_int s * c = 0" by (simp add: x)
  have d_hi: "real_of_int (s + 1) * c - x = c" by (simp add: x algebra_simps)
  have ok: "fl (real_of_int s * c) = Fin x" using assms(2) by (simp add: x)
  show ?thesis
    unfolding shortest_digits.simps Let_def c_def [symmetric] lo d_lo d_hi ok
    using p by simp
qed

lemma shortest_digits_skip:
  assumes "fl (real_of_int \<lfloor>x / 10 powi (n - int k)\<rfloor> * 10 powi (n - int k)) \<noteq> Fin x"
    and "fl (real_of_int (\<lfloor>x / 10 powi (n - int k)\<rfloor> + 1) * 10 powi (n - int k)) \<noteq> Fin x"
  shows "shortest_digits x n k (Suc fuel) = shortest_digits x n (Suc k) fuel"
  unfolding shortest_digits.simps Let_def using assms by simp



lemma fl_e21:
  "fl 1000000000000000000000 = Fin 1000000000000000000000"
  "fl 2000000000000000000000 = Fin 2000000000000000000000"
  "fl 1800000000000000000000 = Fin 1800000000000000000000"
  using fl_exact [where m = "5 ^ 21" and q = 21 and x = "10 ^ 21"]
    fl_exact [where m = "2 * 5 ^ 21" and q = 21 and x = "2 * 10 ^ 21"]
    fl_exact [where m = "18 * 5 ^ 20" and q = 20 and x = "18 * 10 ^ 20"]
  by simp_all

lemma toString_1e21: "Number_toString (Fin 1000000000000000000000) = ''1e+21''"
proof -
  have n: "decimal_exponent 1000000000000000000000 = 22"
    by (simp add: decimal_exponent_def floorlog_numeral floorlog_small)
  have "shortest_digits 1000000000000000000000 22 1 (Suc 16) = (nat 1, 22)"
    by (rule shortest_digits_exact) (simp_all add: fl_e21)
  then have "shortest_digits 1000000000000000000000 22 1 17 = (1, 22)" by simp
  then show ?thesis
    by (simp add: toString_pos_def n digits_eval)
qed

lemma toString_18e20: "Number_toString (Fin 1800000000000000000000) = ''1.8e+21''"
proof -
  have n: "decimal_exponent 1800000000000000000000 = 22"
    by (simp add: decimal_exponent_def floorlog_numeral floorlog_small)
  have "shortest_digits 1800000000000000000000 22 1 (Suc 16)
      = shortest_digits 1800000000000000000000 22 (Suc 1) 16"
    by (rule shortest_digits_skip) (simp_all add: fl_e21)
  also have "\<dots> = shortest_digits 1800000000000000000000 22 2 (Suc 15)"
    by (simp add: numeral_2_eq_2)
  also have "\<dots> = (nat 18, 22)"
    by (rule shortest_digits_exact) (simp_all add: fl_e21)
  finally have "shortest_digits 1800000000000000000000 22 1 17 = (18, 22)" by simp
  then show ?thesis
    by (simp add: toString_pos_def n digits_eval)
qed

section \<open>The convert tool: results\<close>

lemma digit_char_is_digit: "d < 10 \<Longrightarrow> is_digit (digit_char d)"
proof -
  assume "d < 10"
  then have "d \<in> {0, 1, 2, 3, 4, 5, 6, 7, 8, 9}" by auto
  then show ?thesis by (auto simp: digit_char_def is_digit_def)
qed

lemma string_of_nat_digits:
  "string_of_nat n \<noteq> [] \<and> list_all is_digit (string_of_nat n)"
proof (induction n rule: string_of_nat.induct)
  case (1 n)
  show ?case
  proof (cases "n < 10")
    case True
    then show ?thesis by (subst (1 2) string_of_nat.simps) (simp add: digit_char_is_digit)
  next
    case False
    then show ?thesis using 1
      by (subst (1 2) string_of_nat.simps) (simp add: digit_char_is_digit)
  qed
qed

lemma convert_supported:
  assumes "(fromUnit, toUnit, f) \<in> set supported_pairs"
  shows "convert eng v fromUnit toUnit
           = [Number_toString v @ '' '' @ fromUnit @ '' = '' @ toFixed 4 (apply_conversion f v)
                @ '' '' @ toUnit]"
proof -
  have "get_property conversions fromUnit = Own [(toUnit, f)]"
    using assms by (auto simp: supported_pairs_def get_property_def conversions_def)
  moreover have "get_property [(toUnit, f)] toUnit = Own f"
    by (simp add: get_property_def)
  ultimately show ?thesis
    by (simp add: convert_def del: apply_conversion.simps)
qed

lemma convert_unsupported:
  assumes "fromUnit \<notin> set object_prototype_names" "toUnit \<notin> set object_prototype_names"
    and "\<forall>f. (fromUnit, toUnit, f) \<notin> set supported_pairs"
  shows "convert eng v fromUnit toUnit
           = [''Error: Conversion from '' @ fromUnit @ '' to '' @ toUnit @ '' is not supported.'']"
proof (cases "map_of conversions fromUnit")
  case None
  then have "get_property conversions fromUnit = Undefined"
    using assms(1) by (simp add: get_property_def)
  then show ?thesis by (simp add: convert_def)
next
  case (Some entry)
  then have "map_of entry toUnit = None"
    using assms(3) by (auto simp: conversions_def supported_pairs_def split: if_splits)
  then have "get_property entry toUnit = Undefined"
    using assms(2) by (simp add: get_property_def)
  moreover have "get_property conversions fromUnit = Own entry"
    using Some by (simp add: get_property_def)
  ultimately show ?thesis by (simp add: convert_def)
qed


lemma toFixed_digits_shape:
  "\<exists>w d. toFixed_digits 4 x = w @ ''.'' @ d \<and> w \<noteq> [] \<and> list_all is_digit w
     \<and> length d = 4 \<and> list_all is_digit d"
proof -
  define m where "m = string_of_nat (nat \<lfloor>x * 10 ^ 4 + 1 / 2\<rfloor>)"
  define m' where "m' = replicate (4 + 1 - length m) (CHR ''0'') @ m"
  have m: "list_all is_digit m" unfolding m_def using string_of_nat_digits by simp
  have l: "5 \<le> length m'" by (simp add: m'_def)
  have d: "list_all is_digit m'" using m by (auto simp: m'_def list_all_iff is_digit_def)
  let ?w = "take (length m' - 4) m'" and ?d = "drop (length m' - 4) m'"
  have "toFixed_digits 4 x = ?w @ ''.'' @ ?d"
    by (simp add: toFixed_digits_def Let_def m_def m'_def)
  moreover have "?w \<noteq> []" using l by auto
  moreover have "list_all is_digit ?w" "list_all is_digit ?d"
    using d by (auto simp: list_all_iff dest: in_set_takeD in_set_dropD)
  moreover have "length ?d = 4" using l by simp
  ultimately show ?thesis by blast
qed

lemma toFixed_4_decimals:
  assumes "\<bar>x\<bar> < 10 ^ 21"
  shows "\<exists>w d. toFixed 4 (Fin x) = (if x < 0 then ''-'' else []) @ w @ ''.'' @ d \<and> w \<noteq> []
           \<and> list_all is_digit w \<and> length d = 4 \<and> list_all is_digit d"
proof (cases "x < 0")
  case True
  then show ?thesis using assms toFixed_digits_shape [of "- x"] by auto
next
  case False
  then show ?thesis using assms toFixed_digits_shape [of x] by auto
qed

lemma toFixed_32: "toFixed 4 (Fin 32) = ''32.0000''"
  by (simp add: toFixed_digits_def Let_def digits_eval)

lemma c_to_f_1e21:
  "apply_conversion Celsius_fahrenheit (Fin 1000000000000000000000) = Fin 1800000000000000000000"
proof -
  have a: "fl 9000000000000000000000 = Fin 9000000000000000000000"
    using fl_exact [where m = "9 * 5 ^ 21" and q = 21 and x = "9 * 10 ^ 21"] by simp
  have b: "fl 1800000000000000000032 = Fin 1800000000000000000000"
    using fl_nearest [where e = 70 and m = "18 * 5 ^ 20 * 4" and x = "18 * 10 ^ 20 + 32"]
    by simp
  have 1: "num_mul (Fin 1000000000000000000000) (Fin 9) = Fin 9000000000000000000000"
    by (simp add: num_mul_def a)
  have 2: "num_div (Fin 9000000000000000000000) (Fin 5) = Fin 1800000000000000000000"
    by (simp add: num_div_def fl_e21)
  have 3: "num_add (Fin 1800000000000000000000) (Fin 32) = Fin 1800000000000000000000"
    by (simp add: b)
  show ?thesis
    by (simp only: apply_conversion.simps literal_9 literal_5 literal_32 1 2 3)
qed

lemma toFixed_18e20: "toFixed 4 (Fin 1800000000000000000000) = ''1.8e+21''"
  by (simp add: toString_18e20 del: Number_toString.simps)

text \<open>
  C5, as stated, fails: \<open>10 ^ 21\<close> is a number of the format, the pair celsius to
  fahrenheit is supported, and the result is not written with 4 decimal places.
\<close>

theorem four_decimals_counterexample:
  "fl 1000000000000000000000 = Fin 1000000000000000000000
   \<and> convert sample_engine (Fin 1000000000000000000000) ''celsius'' ''fahrenheit''
       = [''1e+21 celsius = 1.8e+21 fahrenheit'']"
proof -
  have "(''celsius'', ''fahrenheit'', Celsius_fahrenheit) \<in> set supported_pairs"
    by (simp add: supported_pairs_def)
  from convert_supported [OF this] show ?thesis
    by (simp add: c_to_f_1e21 toString_1e21 toFixed_18e20 fl_e21
        del: apply_conversion.simps Number_toString.simps toFixed.simps)
qed

lemma convert_0:
  "convert eng (Fin 0) ''celsius'' ''fahrenheit'' = [''0 celsius = 32.0000 fahrenheit'']"
proof -
  have "(''celsius'', ''fahrenheit'', Celsius_fahrenheit) \<in> set supported_pairs"
    by (simp add: supported_pairs_def)
  from convert_supported [OF this] show ?thesis
    by (simp add: c_to_f_0 toFixed_32 del: apply_conversion.simps toFixed.simps)
qed

lemma convert_kelvin:
  "convert eng (Fin 10) ''celsius'' ''kelvin''
     = [''Error: Conversion from celsius to kelvin is not supported.'']"
  using convert_unsupported [of "''celsius''" "''kelvin''" eng "Fin 10"]
  by (simp add: object_prototype_names_def supported_pairs_def)

lemma fl_overflow:
  assumes "2 powi 1024 \<le> x"
  shows "fl x = PInf"
proof -
  have x: "0 < x" using assms by (smt (verit) zero_less_power_int)
  have "2 powi 1024 < (2::real) powi (ilog2 x + 1)"
    using ilog2_bounds [OF x] assms by linarith
  then have e: "1024 < ilog2 x + 1" by (rule pow2_less_cancel)
  then have q: "quantum x + 52 = ilog2 x" by (simp add: quantum_def)
  have "(2::real) powi 1024 \<le> 2 powi (ilog2 x)"
    using e by (intro power_int_increasing) simp_all
  also have "\<dots> \<le> round_pos x"
    using round_pos_lower [OF x] e q by simp
  finally show ?thesis using x by (simp add: fl_def)
qed

lemma fl_2_1023: "fl (2 ^ 1023) = Fin (2 ^ 1023)"
  using fl_exact [where m = 1 and q = 1023 and x = "2 ^ 1023"] by simp

lemma c_to_f_overflow: "apply_conversion Celsius_fahrenheit (Fin (2 ^ 1023)) = PInf"
proof -
  have "(2::real) powi 1024 \<le> 2 ^ 1023 * 9" by simp
  then have "fl (2 ^ 1023 * 9) = PInf" by (rule fl_overflow)
  then have 1: "num_mul (Fin (2 ^ 1023)) (Fin 9) = PInf"
    by (simp add: num_mul_def)
  have 2: "num_div PInf (Fin 5) = PInf"
    by (simp add: num_div_def signed_inf_def)
  show ?thesis
    by (simp only: apply_conversion.simps literal_9 literal_5 literal_32 1 2 num_add.simps)
qed

lemma km_to_miles_NegZero: "apply_conversion Kilometers_miles NegZero = NegZero"
proof -
  obtain c where c: "Number_literal (621371 / 10 ^ 6) = Fin c" "0 < c"
    using literal_factor [of "621371 / 10 ^ 6"] by auto
  show ?thesis
    by (simp only: apply_conversion.simps c) (use c(2) in \<open>simp add: num_mul_def signed_zero_def\<close>)
qed

lemma toFixed_not_finite:
  "toFixed 4 NegZero = ''0.0000''" "toFixed 4 PInf = ''Infinity''"
  "toFixed 4 NInf = ''-Infinity''" "toFixed 4 NaN = ''NaN''"
  by (simp_all add: toFixed_digits_def Let_def digits_eval numeral_3_eq_3)

lemma convert_NegZero:
  "convert eng NegZero ''kilometers'' ''miles'' = [''0 kilometers = 0.0000 miles'']"
proof -
  have "(''kilometers'', ''miles'', Kilometers_miles) \<in> set supported_pairs"
    by (simp add: supported_pairs_def)
  from convert_supported [OF this] show ?thesis
    by (simp add: km_to_miles_NegZero toFixed_not_finite del: apply_conversion.simps toFixed.simps)
qed

lemma convert_overflow:
  "convert eng (Fin (2 ^ 1023)) ''celsius'' ''fahrenheit''
     = [Number_toString (Fin (2 ^ 1023)) @ '' celsius = Infinity fahrenheit'']"
proof -
  have "(''celsius'', ''fahrenheit'', Celsius_fahrenheit) \<in> set supported_pairs"
    by (simp add: supported_pairs_def)
  from convert_supported [OF this, of eng "Fin (2 ^ 1023)"] show ?thesis
    by (simp only: c_to_f_overflow toFixed_not_finite) (simp del: Number_toString.simps)
qed

text \<open>
  C5, amended. For every number and every engine: for each of the six supported pairs,
  convert returns \<^verbatim>\<open><value> <fromUnit> = <result> <toUnit>\<close>, where the result is what
  the table's formula computes, formatted by \<^verbatim>\<open>toFixed(4)\<close>. Of every number \<open>r\<close>, and
  so of every result of a formula, that text has exactly 4 decimal places when \<open>r\<close> is
  finite with a magnitude below \<open>10 ^ 21\<close> (it is \<^verbatim>\<open>0.0000\<close> for \<open>-0\<close>), is the
  number's ordinary text when \<open>r\<close> is finite with a magnitude of \<open>10 ^ 21\<close> or more, and
  is \<^verbatim>\<open>Infinity\<close>, \<^verbatim>\<open>-Infinity\<close> or \<^verbatim>\<open>NaN\<close> when \<open>r\<close> is not finite. When neither
  unit is the name of a property of \<^verbatim>\<open>Object.prototype\<close> and the pair is not supported,
  convert returns the text error that names both units. In particular
  \<^verbatim>\<open>convert(0, "celsius", "fahrenheit")\<close> is \<^verbatim>\<open>0 celsius = 32.0000 fahrenheit\<close> and
  \<^verbatim>\<open>convert(10, "celsius", "kelvin")\<close> is the error that names celsius and kelvin;
  \<^verbatim>\<open>convert(-0, "kilometers", "miles")\<close> is \<^verbatim>\<open>0 kilometers = 0.0000 miles\<close>, and
  the result for \<open>2 ^ 1023\<close> degrees celsius, a number of the format, is
  \<^verbatim>\<open>Infinity\<close>.
\<close>

theorem convert_result:
  "((fromUnit, toUnit, f) \<in> set supported_pairs \<longrightarrow>
      convert eng v fromUnit toUnit
        = [Number_toString v @ '' '' @ fromUnit @ '' = '' @ toFixed 4 (apply_conversion f v)
             @ '' '' @ toUnit])
   \<and> (case r of
         Fin x \<Rightarrow>
           if \<bar>x\<bar> < 10 ^ 21
           then \<exists>w d. toFixed 4 r = (if x < 0 then ''-'' else []) @ w @ ''.'' @ d \<and> w \<noteq> []
                  \<and> list_all is_digit w \<and> length d = 4 \<and> list_all is_digit d
           else toFixed 4 r = Number_toString r
       | NegZero \<Rightarrow> toFixed 4 r = ''0.0000''
       | PInf \<Rightarrow> toFixed 4 r = ''Infinity''
       | NInf \<Rightarrow> toFixed 4 r = ''-Infinity''
       | NaN \<Rightarrow> toFixed 4 r = ''NaN'')
   \<and> (fromUnit \<notin> set object_prototype_names \<and> toUnit \<notin> set object_prototype_names
        \<and> (\<forall>g. (fromUnit, toUnit, g) \<notin> set supported_pairs) \<longrightarrow>
      convert eng v fromUnit toUnit
        = [''Error: Conversion from '' @ fromUnit @ '' to '' @ toUnit @ '' is not supported.''])
   \<and> convert eng (Fin 0) ''celsius'' ''fahrenheit'' = [''0 celsius = 32.0000 fahrenheit'']
   \<and> convert eng (Fin 10) ''celsius'' ''kelvin''
       = [''Error: Conversion from celsius to kelvin is not supported.'']
   \<and> convert eng NegZero ''kilometers'' ''miles'' = [''0 kilometers = 0.0000 miles'']
   \<and> fl (2 ^ 1023) = Fin (2 ^ 1023)
   \<and> convert eng (Fin (2 ^ 1023)) ''celsius'' ''fahrenheit''
       = [Number_toString (Fin (2 ^ 1023)) @ '' celsius = Infinity fahrenheit'']"
proof (intro conjI impI)
  show "convert eng v fromUnit toUnit
        = [Number_toString v @ '' '' @ fromUnit @ '' = '' @ toFixed 4 (apply_conversion f v)
             @ '' '' @ toUnit]" if "(fromUnit, toUnit, f) \<in> set supported_pairs"
    using that by (rule convert_supported)
  show "case r of
         Fin x \<Rightarrow>
           if \<bar>x\<bar> < 10 ^ 21
           then \<exists>w d. toFixed 4 r = (if x < 0 then ''-'' else []) @ w @ ''.'' @ d \<and> w \<noteq> []
                  \<and> list_all is_digit w \<and> length d = 4 \<and> list_all is_digit d
           else toFixed 4 r = Number_toString r
       | NegZero \<Rightarrow> toFixed 4 r = ''0.0000''
       | PInf \<Rightarrow> toFixed 4 r = ''Infinity''
       | NInf \<Rightarrow> toFixed 4 r = ''-Infinity''
       | NaN \<Rightarrow> toFixed 4 r = ''NaN''"
  proof (cases r)
    case (Fin x)
    show ?thesis
    proof (cases "\<bar>x\<bar> < 10 ^ 21")
      case True
      then show ?thesis using toFixed_4_decimals [of x] unfolding Fin by simp
    next
      case False
      then have "toFixed 4 (Fin x) = Number_toString (Fin x)"
        by (cases "x < 0") (simp_all del: Number_toString.simps)
      then show ?thesis using False unfolding Fin by simp
    qed
  qed (simp_all add: toFixed_not_finite del: toFixed.simps)
  show "convert eng v fromUnit toUnit
        = [''Error: Conversion from '' @ fromUnit @ '' to '' @ toUnit @ '' is not supported.'']"
    if "fromUnit \<notin> set object_prototype_names \<and> toUnit \<notin> set object_prototype_names
        \<and> (\<forall>g. (fromUnit, toUnit, g) \<notin> set supported_pairs)"
    using that by (intro convert_unsupported) simp_all
  show "convert eng (Fin 0) ''celsius'' ''fahrenheit'' = [''0 celsius = 32.0000 fahrenheit'']"
    by (rule convert_0)
  show "convert eng (Fin 10) ''celsius'' ''kelvin''
       = [''Error: Conversion from celsius to kelvin is not supported.'']"
    by (rule convert_kelvin)
  show "convert eng NegZero ''kilometers'' ''miles'' = [''0 kilometers = 0.0000 miles'']"
    by (rule convert_NegZero)
  show "fl (2 ^ 1023) = Fin (2 ^ 1023)"
    by (rule fl_2_1023)
  show "convert eng (Fin (2 ^ 1023)) ''celsius'' ''fahrenheit''
       = [Number_toString (Fin (2 ^ 1023)) @ '' celsius = Infinity fahrenheit'']"
    by (rule convert_overflow)
qed

text \<open>
  The pairs celsius to fahrenheit at 0 and celsius to kelvin at 10, and the texts of the
  numbers 32 and \<open>18 * 10 ^ 20\<close>.
\<close>

theorem convert_result_witness:
  "(''celsius'', ''fahrenheit'', Celsius_fahrenheit) \<in> set supported_pairs
   \<and> convert sample_engine (Fin 0) ''celsius'' ''fahrenheit''
       = [Number_toString (Fin 0) @ '' celsius = ''
            @ toFixed 4 (apply_conversion Celsius_fahrenheit (Fin 0)) @ '' fahrenheit'']
   \<and> \<bar>32 :: real\<bar> < 10 ^ 21
   \<and> (\<exists>w d. toFixed 4 (Fin 32) = w @ ''.'' @ d \<and> w \<noteq> []
           \<and> list_all is_digit w \<and> length d = 4 \<and> list_all is_digit d)
   \<and> 10 ^ 21 \<le> \<bar>1800000000000000000000 :: real\<bar>
   \<and> toFixed 4 (Fin 1800000000000000000000) = Number_toString (Fin 1800000000000000000000)
   \<and> ''celsius'' \<notin> set object_prototype_names \<and> ''kelvin'' \<notin> set object_prototype_names
   \<and> (\<forall>g. (''celsius'', ''kelvin'', g) \<notin> set supported_pairs)
   \<and> convert sample_engine (Fin 10) ''celsius'' ''kelvin''
       = [''Error: Conversion from celsius to kelvin is not supported.'']"
proof -
  have a: "(''celsius'', ''fahrenheit'', Celsius_fahrenheit) \<in> set supported_pairs"
    by (simp add: supported_pairs_def)
  have b: "\<bar>32 :: real\<bar> < 10 ^ 21" by simp
  have c: "10 ^ 21 \<le> \<bar>1800000000000000000000 :: real\<bar>" by simp
  have d: "''celsius'' \<notin> set object_prototype_names \<and> ''kelvin'' \<notin> set object_prototype_names
      \<and> (\<forall>g. (''celsius'', ''kelvin'', g) \<notin> set supported_pairs)"
    by (simp add: object_prototype_names_def supported_pairs_def)
  note t1 = convert_result [of "''celsius''" "''fahrenheit''" Celsius_fahrenheit sample_engine
      "Fin 0" "Fin 32"]
  note t2 = convert_result [of "''celsius''" "''kelvin''" Celsius_fahrenheit sample_engine
      "Fin 10" "Fin 1800000000000000000000"]
  from t1 a have 1: "convert sample_engine (Fin 0) ''celsius'' ''fahrenheit''
       = [Number_toString (Fin 0) @ '' celsius = ''
            @ toFixed 4 (apply_conversion Celsius_fahrenheit (Fin 0)) @ '' fahrenheit'']"
    by (simp del: apply_conversion.simps toFixed.simps Number_toString.simps)
  from t1 have "case Fin 32 of
         Fin x \<Rightarrow>
           if \<bar>x\<bar> < 10 ^ 21
           then \<exists>w d. toFixed 4 (Fin 32) = (if x < 0 then ''-'' else []) @ w @ ''.'' @ d \<and> w \<noteq> []
                  \<and> list_all is_digit w \<and> length d = 4 \<and> list_all is_digit d
           else toFixed 4 (Fin 32) = Number_toString (Fin 32)
       | NegZero \<Rightarrow> toFixed 4 (Fin 32) = ''0.0000''
       | PInf \<Rightarrow> toFixed 4 (Fin 32) = ''Infinity''
       | NInf \<Rightarrow> toFixed 4 (Fin 32) = ''-Infinity''
       | NaN \<Rightarrow> toFixed 4 (Fin 32) = ''NaN''"
    by blast
  then have 2: "\<exists>w d. toFixed 4 (Fin 32) = w @ ''.'' @ d \<and> w \<noteq> []
           \<and> list_all is_digit w \<and> length d = 4 \<and> list_all is_digit d"
    by (simp del: toFixed.simps)
  from t2 have "case Fin 1800000000000000000000 of
         Fin x \<Rightarrow>
           if \<bar>x\<bar> < 10 ^ 21
           then \<exists>w d. toFixed 4 (Fin 1800000000000000000000)
                    = (if x < 0 then ''-'' else []) @ w @ ''.'' @ d \<and> w \<noteq> []
                  \<and> list_all is_digit w \<and> length d = 4 \<and> list_all is_digit d
           else toFixed 4 (Fin 1800000000000000000000) = Number_toString (Fin 1800000000000000000000)
       | NegZero \<Rightarrow> toFixed 4 (Fin 1800000000000000000000) = ''0.0000''
       | PInf \<Rightarrow> toFixed 4 (Fin 1800000000000000000000) = ''Infinity''
       | NInf \<Rightarrow> toFixed 4 (Fin 1800000000000000000000) = ''-Infinity''
       | NaN \<Rightarrow> toFixed 4 (Fin 1800000000000000000000) = ''NaN''"
    by blast
  then have 3: "toFixed 4 (Fin 1800000000000000000000)
       = Number_toString (Fin 1800000000000000000000)"
    by (simp del: toFixed.simps Number_toString.simps)
  from t2 d have 4: "convert sample_engine (Fin 10) ''celsius'' ''kelvin''
       = [''Error: Conversion from celsius to kelvin is not supported.'']"
    by blast
  from a b c d 1 2 3 4 show ?thesis by blast
qed

text \<open>
  C10 at \<^verbatim>\<open>convert(value, "celsius", "__proto__")\<close>: the lookup finds the object
  \<^verbatim>\<open>Object.prototype\<close>, the call of it throws, and the \<^verbatim>\<open>catch\<close> clause returns
  \<^verbatim>\<open>Error during conversion: ...\<close>. The same lookup makes
  \<^verbatim>\<open>convert(1, "celsius", "constructor")\<close> a conversion result for a pair that is not in
  the table.
\<close>

theorem inherited_member_reaches_catch:
  "convert eng v ''celsius'' ''__proto__''
     = [''Error during conversion: '' @ not_a_function_message eng]
   \<and> convert eng (Fin 1) ''celsius'' ''constructor'' = [''1 celsius = 1.0000 constructor'']"
proof -
  have g: "get_property conversions ''celsius'' = Own [(''fahrenheit'', Celsius_fahrenheit)]"
    by (simp add: get_property_def conversions_def)
  have p: "get_property [(''fahrenheit'', Celsius_fahrenheit)] ''__proto__'' = Inherited ''__proto__''"
    "get_property [(''fahrenheit'', Celsius_fahrenheit)] ''constructor'' = Inherited ''constructor''"
    by (simp_all add: get_property_def object_prototype_names_def)
  have c: "call_inherited eng ''__proto__'' v = Inl (Error_object (not_a_function_message eng))"
    "call_inherited eng ''constructor'' (Fin 1) = Inr (Fin 1)"
    by (simp_all add: call_inherited_def)
  have s: "Number_toString (Fin 1) = ''1''"
  proof -
    have n: "decimal_exponent 1 = 1"
      by (simp add: decimal_exponent_def floorlog_numeral floorlog_small)
    have "shortest_digits 1 1 1 (Suc 16) = (nat 1, 1)"
      using fl_integer [of 1] by (intro shortest_digits_exact) simp_all
    then have "shortest_digits 1 1 1 17 = (1, 1)" by simp
    then show ?thesis by (simp add: toString_pos_def n digits_eval)
  qed
  have f: "toFixed 4 (Fin 1) = ''1.0000''"
    by (simp add: toFixed_digits_def Let_def digits_eval)
  show ?thesis
    by (simp add: convert_def g p c s f del: Number_toString.simps toFixed.simps)
qed

section \<open>The calculate tool: the texts that are evaluated\<close>

text \<open>
  The model of \<^verbatim>\<open>eval\<close> gives an answer for every text over the characters that the
  handler keeps, unless the text has \<^verbatim>\<open>**\<close> in it: so the model of the handler gives
  the result for every input whose remainder is without \<^verbatim>\<open>**\<close>.
\<close>

lemma sublist_rest:
  "sublist p (drop n cs) \<Longrightarrow> sublist p (c # cs)"
  by (meson sublist_Cons_right sublist_drop sublist_order.order_trans)

lemma allowed_rest:
  "list_all allowed_char cs \<Longrightarrow> list_all allowed_char (drop n cs)"
  by (auto simp: list_all_iff dest: in_set_dropD)

lemma tokenize_answers:
  "list_all allowed_char s \<Longrightarrow> tokenize operand s = None \<Longrightarrow> sublist ''**'' s"
proof (induction operand s rule: tokenize.induct)
  case (1 operand)
  then show ?case by (simp add: tokenize.simps)
next
  case (2 operand c cs)
  from "2.prems"(1) have ac: "allowed_char c" and acs: "list_all allowed_char cs" by simp_all
  have a: "list_all allowed_char (drop n cs)" for n
    using acs by (rule allowed_rest)
  have a': "list_all allowed_char (drop n (tl cs))" for n
    using acs by (cases cs) (simp_all add: allowed_rest)
  have r: "sublist ''**'' (drop n cs) \<Longrightarrow> sublist ''**'' (c # cs)" for n
    by (rule sublist_rest)
  have r0: "sublist ''**'' cs \<Longrightarrow> sublist ''**'' (c # cs)"
    using r [of 0] by simp
  have r': "sublist ''**'' (drop n (tl cs)) \<Longrightarrow> sublist ''**'' (c # cs)" for n
    using r [of "Suc n"] by (simp add: drop_Suc)
  note ih = "2.IH"
  note t = tokenize.simps(2) [of operand c cs]
  note p = "2.prems"(2) [unfolded t]
  have dbl: "sublist ''**'' (c # cs)" if "c = CHR ''*''" "cs \<noteq> []" "hd cs = CHR ''*''"
  proof -
    have "c # cs = [] @ ''**'' @ tl cs" using that by (cases cs) simp_all
    then show ?thesis unfolding sublist_def by blast
  qed
  consider (lit) "is_digit c \<or> c = CHR ''.'' \<and> cs \<noteq> [] \<and> is_digit (hd cs)"
    | (plus) "\<not> (is_digit c \<or> c = CHR ''.'' \<and> cs \<noteq> [] \<and> is_digit (hd cs))" "c = CHR ''+''"
    | (minus) "\<not> (is_digit c \<or> c = CHR ''.'' \<and> cs \<noteq> [] \<and> is_digit (hd cs))" "c = CHR ''-''"
    | (star) "\<not> (is_digit c \<or> c = CHR ''.'' \<and> cs \<noteq> [] \<and> is_digit (hd cs))" "c = CHR ''*''"
    | (slash) "\<not> (is_digit c \<or> c = CHR ''.'' \<and> cs \<noteq> [] \<and> is_digit (hd cs))" "c = CHR ''/''"
    | (lparen) "\<not> (is_digit c \<or> c = CHR ''.'' \<and> cs \<noteq> [] \<and> is_digit (hd cs))" "c = CHR ''(''"
    | (rparen) "\<not> (is_digit c \<or> c = CHR ''.'' \<and> cs \<noteq> [] \<and> is_digit (hd cs))" "c = CHR '')''"
    | (dot) "\<not> (is_digit c \<or> c = CHR ''.'' \<and> cs \<noteq> [] \<and> is_digit (hd cs))" "c = CHR ''.''"
    using ac by (auto simp: allowed_char_def)
  then show ?case
  proof cases
    case lit
    then have "tokenize False (drop (length (literal_text (c # cs)) - 1) cs) = None"
      using p by (simp add: Let_def split: if_splits)
    moreover have "\<not> (c = CHR ''0'' \<and> cs \<noteq> [] \<and> is_digit (hd cs))"
      using p lit by (simp add: Let_def split: if_splits)
    ultimately have "sublist ''**'' (drop (length (literal_text (c # cs)) - 1) cs)"
      using ih(1) [OF lit refl _ a] by blast
    then show ?thesis by (rule r)
  next
    case plus
    then have "\<not> (cs \<noteq> [] \<and> hd cs = CHR ''+'')" "tokenize True cs = None"
      using p by (simp_all split: if_splits)
    then show ?thesis using ih(2) [OF plus _ acs] r0 by blast
  next
    case minus
    then have n: "c \<noteq> CHR ''+''" by simp
    from minus have "\<not> (cs \<noteq> [] \<and> hd cs = CHR ''-'')" "tokenize True cs = None"
      using p by (simp_all split: if_splits)
    then show ?thesis using ih(3) [OF minus(1) n minus(2) _ acs] r0 by blast
  next
    case star
    then have n: "c \<noteq> CHR ''+''" "c \<noteq> CHR ''-''" by simp_all
    show ?thesis
    proof (cases "cs \<noteq> [] \<and> hd cs = CHR ''*''")
      case True
      then show ?thesis using star(2) by (intro dbl) simp_all
    next
      case False
      then have "tokenize True cs = None" using p star by (simp split: if_splits)
      then show ?thesis using ih(4) [OF star(1) n star(2) False acs] r0 by blast
    qed
  next
    case slash
    then have n: "c \<noteq> CHR ''+''" "c \<noteq> CHR ''-''" "c \<noteq> CHR ''*''" by simp_all
    have c1: "\<not> (cs \<noteq> [] \<and> hd cs = CHR ''/'')"
      using p slash by (auto split: if_splits)
    show ?thesis
    proof (cases "cs \<noteq> [] \<and> hd cs = CHR ''*''")
      case True
      then obtain n where e: "comment_end (tl cs) = Some n"
        and k: "tokenize operand (drop n (tl cs)) = None"
        using p slash c1 by (auto split: if_splits option.splits)
      show ?thesis
        using ih(5) [OF slash(1) n slash(2) c1 True e a' k] by (rule r')
    next
      case c2: False
      show ?thesis
      proof (cases operand)
        case True
        define body where "body = takeWhile (\<lambda>d. d \<noteq> CHR ''/'') cs"
        define after where "after = drop (Suc (length body)) cs"
        have q: "\<not> length cs \<le> length body" "\<not> (after \<noteq> [] \<and> is_digit (hd after))"
          "\<not> \<not> regex_pattern False 0 body" "tokenize False after = None"
          using p slash c1 c2 True unfolding body_def after_def
          by (auto simp: Let_def split: if_splits)
        have "list_all allowed_char after" unfolding after_def by (rule a)
        then have "sublist ''**'' after"
          using ih(6) [OF slash(1) n slash(2) c1 c2 True body_def after_def q(1,2,3) _ q(4)]
          by blast
        then show ?thesis unfolding after_def by (rule r)
      next
        case False
        then have "tokenize True cs = None"
          using p slash c1 c2 by (auto split: if_splits)
        then show ?thesis using ih(7) [OF slash(1) n slash(2) c1 c2 False acs] r0 by blast
      qed
    qed
  next
    case lparen
    then have n: "c \<noteq> CHR ''+''" "c \<noteq> CHR ''-''" "c \<noteq> CHR ''*''" "c \<noteq> CHR ''/''" by simp_all
    from lparen have "tokenize True cs = None" using p by (simp split: if_splits)
    then show ?thesis using ih(8) [OF lparen(1) n lparen(2) acs] r0 by blast
  next
    case rparen
    then have n: "c \<noteq> CHR ''+''" "c \<noteq> CHR ''-''" "c \<noteq> CHR ''*''" "c \<noteq> CHR ''/''" "c \<noteq> CHR ''(''"
      by simp_all
    from rparen have "tokenize False cs = None" using p by (simp split: if_splits)
    then show ?thesis using ih(9) [OF rparen(1) n rparen(2) acs] r0 by blast
  next
    case dot
    then show ?thesis using p by (simp split: if_splits)
  qed
qed

lemma calculate_answers:
  "calculate expression = None \<Longrightarrow> sublist ''**'' (sanitize expression)"
proof -
  assume n: "calculate expression = None"
  have a: "list_all allowed_char (sanitize expression)"
    by (simp add: sanitize_def list_all_iff)
  have "tokenize True (sanitize expression) = None"
    using n a by (auto simp: calculate_def js_eval_def
        split: eval_outcome.splits option.splits if_splits prod.splits list.splits)
  then show ?thesis using a by (intro tokenize_answers)
qed

section \<open>The calculate tool: the strings of an evaluation\<close>

text \<open>
  Every value that the evaluation of a text produces is, if it is a string, one that holds
  a \<^verbatim>\<open>/\<close>: so every string that an operator turns into a number is turned into NaN.
\<close>

lemma slashed_ops [simp]:
  "slashed a \<Longrightarrow> slashed b \<Longrightarrow> slashed (js_add a b)"
  "slashed (js_sub a b)" "slashed (js_mul a b)" "slashed (js_div a b)"
  "slashed (js_plus a)" "slashed (js_minus a)"
  by (cases a; cases b; simp add: js_add_def js_sub_def js_mul_def js_div_def js_plus_def js_minus_def)+

lemma strings_hold_a_slash:
  "(\<forall>v r. parse_unary ts = Some (v, r) \<longrightarrow> slashed v)"
  "(\<forall>w r. slashed v \<longrightarrow> parse_mul_rest v ts = Some (w, r) \<longrightarrow> slashed w)"
  "(\<forall>v r. parse_multiplicative ts = Some (v, r) \<longrightarrow> slashed v)"
  "(\<forall>w r. slashed v \<longrightarrow> parse_add_rest v ts = Some (w, r) \<longrightarrow> slashed w)"
  "(\<forall>v r. parse_additive ts = Some (v, r) \<longrightarrow> slashed v)"
proof (induction ts and v ts and ts and v ts and ts
      rule: parse_unary_parse_mul_rest_parse_multiplicative_parse_add_rest_parse_additive.induct)
  case (5 ts)
  then show ?case
    by (simp del: parse_additive.simps split: option.splits prod.splits list.splits token.splits)
next
  case (7 v ts)
  then show ?case
    by (simp split: option.splits if_splits; blast)
next
  case (8 v ts)
  then show ?case
    by (simp split: option.splits if_splits; blast)
next
  case (10 ts)
  then show ?case
    by (simp split: option.splits if_splits; blast)
next
  case (11 v ts)
  show ?case
  proof (intro allI impI)
    fix w r
    assume v: "slashed v" and p: "parse_add_rest v (T_plus # ts) = Some (w, r)"
    from p obtain u q where m: "parse_multiplicative ts = Some (u, q)"
      and l: "length q \<le> length ts" and a: "parse_add_rest (js_add v u) q = Some (w, r)"
      by (auto simp del: parse_multiplicative.simps split: option.splits if_splits)
    have "slashed u" using 11(1) m by blast
    then have "slashed (js_add v u)" using v by simp
    then show "slashed w" using 11(2) m l a by blast
  qed
next
  case (12 v ts)
  then show ?case
    by (simp del: parse_multiplicative.simps split: option.splits if_splits; blast)
next
  case (14 ts)
  then show ?case
    by (simp del: parse_multiplicative.simps split: option.splits if_splits; blast)
qed (auto split: prod.splits)

section \<open>The calculate tool: arithmetic expressions\<close>














lemma operators_on_numbers [simp]:
  "js_add (Number_value a) (Number_value b) = Number_value (num_add a b)"
  "js_sub (Number_value a) (Number_value b) = Number_value (num_sub a b)"
  "js_mul (Number_value a) (Number_value b) = Number_value (num_mul a b)"
  "js_div (Number_value a) (Number_value b) = Number_value (num_div a b)"
  "js_plus (Number_value a) = Number_value a"
  "js_minus (Number_value a) = Number_value (num_neg a)"
  by (simp_all add: js_add_def js_sub_def js_mul_def js_div_def js_plus_def js_minus_def)























section \<open>The calculate and format-date tools: what is not an error\<close>

text \<open>
  C8 at the input \<^verbatim>\<open>hello\<close>: nothing is left after the characters are removed, the
  empty text is not arithmetic, and calculate answers \<^verbatim>\<open>Result: undefined\<close>, not an
  error. (A text such as \<^verbatim>\<open>2+\<close>, which the engine rejects, does give the error.)
\<close>

theorem empty_expression_is_not_an_error:
  "sanitize ''hello'' = []
   \<and> calculate ''hello'' = Some [''Result: undefined'']
   \<and> calculate ''2+'' = Some [''Error: Could not evaluate expression '' @ [CHR 0x27] @ ''2+'' @ [CHR 0x27]]"
proof -
  have s: "sanitize ''hello'' = []" "sanitize ''2+'' = ''2+''"
    by (simp_all add: sanitize_def allowed_char_def is_digit_def)
  have e: "js_eval [] = Returns Undefined_value"
    by (simp add: js_eval_def tokenize.simps)
  have l: "tokenize True ''2+'' = Some [T_num ''2'', T_plus]"
    by (simp add: tokenize.simps literal_text_def is_digit_def)
  have t: "js_eval ''2+'' = Throws"
    by (simp add: js_eval_def l allowed_char_def is_digit_def)
  show ?thesis
    by (simp add: calculate_def s e t)
qed

text \<open>
  C9 at the date \<^verbatim>\<open>not a date\<close> with the pattern \<^verbatim>\<open>YYYY-MM-DD\<close>: the date is
  invalid and the result is \<^verbatim>\<open>NaN-NaN-NaN\<close>, not an error. (Without a pattern the
  same date gives the error.)
\<close>

theorem unparsable_date_with_format:
  "Date_parse sample_engine ''not a date'' = Invalid_Date
   \<and> format_date sample_engine (Some ''not a date'') (Some ''YYYY-MM-DD'') = [''NaN-NaN-NaN'']
   \<and> format_date sample_engine (Some ''not a date'') None
       = [''Error formatting date: Invalid time value'']"
proof -
  have p: "Date_parse sample_engine ''not a date'' = Invalid_Date"
    "invalid_time_message sample_engine = ''Invalid time value''"
    by (simp_all add: sample_engine_def)
  have f: "formatDate Invalid_Date ''YYYY-MM-DD'' = ''NaN-NaN-NaN''"
    by (simp add: formatDate_def getFullYear_def getMonth_def getDate_def getHours_def
        getMinutes_def getSeconds_def padStart0_def)
  show ?thesis
    by (simp add: format_date_def p f)
qed

section \<open>Prompt assembly\<close>

lemma foldl_append_blocks:
  "foldl (\<lambda>p (tableName, ddl). p @ ''Table: '' @ tableName @ LF @ ddl @ LF @ LF) p es
     = p @ concat (map table_block es)"
  by (induction es arbitrary: p) (auto simp: table_block_def)

text \<open>
  C1. For every schema mapping and query, the prompt the nl-to-sql handler assembles is
  the fixed preamble, then one block \<^verbatim>\<open>Table: <name>\n<definition>\n\n\<close> per schema entry
  in the order \<^verbatim>\<open>Object.entries\<close> lists them, then the query block, then the fixed
  instruction to answer with SQL only; and this text is what the handler passes to the
  remote client when it reaches it.
\<close>

theorem prompt_assembly:
  "promptText schemas query =
     preamble @ concat (map table_block (Object_entries schemas)) @ query_block query
       @ sql_only_instruction
   \<and> remote_calls (nl_to_sql env schemas gen query) =
       (if GEMINI_API_KEY env = [] \<or> schemas = [] then []
        else [preamble @ concat (map table_block (Object_entries schemas)) @ query_block query
                @ sql_only_instruction])"
proof -
  have p: "promptText schemas query =
     preamble @ concat (map table_block (Object_entries schemas)) @ query_block query
       @ sql_only_instruction"
    unfolding promptText_def Let_def foldl_append_blocks preamble_def query_block_def
      sql_only_instruction_def
    by (simp only: append_assoc)
  have "remote_calls (nl_to_sql env schemas gen query) =
       (if GEMINI_API_KEY env = [] \<or> schemas = [] then [] else [promptText schemas query])"
    by (simp add: nl_to_sql_def Object_keys_def Let_def split: sum.splits)
  with p show ?thesis by (simp only:)
qed

section \<open>Guards of the nl-to-sql tool\<close>

text \<open>
  C2. When the credential is not configured (the environment variable is absent or empty)
  the handler returns the fixed text that names it, and when the credential is present but
  no schema is loaded it returns the fixed text about the schemas; in both cases the remote
  client is not invoked. The client is invoked exactly when a credential is present and
  at least one schema is loaded.
\<close>

theorem guards_before_remote_call:
  "(GEMINI_API_KEY env = [] \<longrightarrow>
      nl_to_sql env schemas gen query = \<lparr>content = [key_missing_text], remote_calls = []\<rparr>)
   \<and> (GEMINI_API_KEY env \<noteq> [] \<and> Object_keys schemas = [] \<longrightarrow>
      nl_to_sql env schemas gen query = \<lparr>content = [no_schemas_text], remote_calls = []\<rparr>)
   \<and> (remote_calls (nl_to_sql env schemas gen query) \<noteq> [] \<longleftrightarrow>
        GEMINI_API_KEY env \<noteq> [] \<and> Object_keys schemas \<noteq> [])
   \<and> (GEMINI_API_KEY env = [] \<longleftrightarrow> env = None \<or> env = Some [])"
  by (auto simp: nl_to_sql_def key_missing_text_def no_schemas_text_def Let_def GEMINI_API_KEY_def
      split: sum.splits option.splits)

theorem guards_before_remote_call_witness:
  "GEMINI_API_KEY None = []
   \<and> nl_to_sql None one_schema answering_client ''list the departments''
       = \<lparr>content = [key_missing_text], remote_calls = []\<rparr>
   \<and> GEMINI_API_KEY (Some ''k'') \<noteq> [] \<and> Object_keys [] = []
   \<and> nl_to_sql (Some ''k'') [] answering_client ''list the departments''
       = \<lparr>content = [no_schemas_text], remote_calls = []\<rparr>
   \<and> Object_keys one_schema \<noteq> []
   \<and> remote_calls (nl_to_sql (Some ''k'') one_schema answering_client ''list the departments'') \<noteq> []"
  using guards_before_remote_call [of None one_schema answering_client "''list the departments''"]
    guards_before_remote_call [of "Some ''k''" "[]" answering_client "''list the departments''"]
    guards_before_remote_call [of "Some ''k''" one_schema answering_client "''list the departments''"]
  by (simp add: GEMINI_API_KEY_def Object_keys_def one_schema_def)

section \<open>Schema loader: failed reads and keys\<close>

lemma endsWith_prefix_rev:
  "endsWith s t = prefix (rev t) (rev s)"
  by (simp add: endsWith_def suffix_to_prefix)

lemma load_loop_fails:
  "\<exists>f\<in>set files. endsWith f ''.sql'' \<and> isl (rf f) \<Longrightarrow> isl (load_loop rf files acc)"
  by (induction files arbitrary: acc) (auto simp: Let_def split: sum.splits)

text \<open>
  C3, as stated, fails: with \<^verbatim>\<open>a.sql\<close> readable and \<^verbatim>\<open>b.sql\<close> not, the loader
  does not return the mapping that holds the entry for \<^verbatim>\<open>a\<close>; the \<^verbatim>\<open>catch\<close>
  clause returns the empty object.
\<close>

theorem partial_load_counterexample:
  "readFile fs_second_read_fails ''a.sql'' = Inr ''CREATE TABLE a (id INT);''
   \<and> isl (readFile fs_second_read_fails ''b.sql'')
   \<and> schemas_of (loadDatabaseSchemas fs_second_read_fails) = []
   \<and> schemas_of (loadDatabaseSchemas fs_second_read_fails) \<noteq> [(''a'', ''CREATE TABLE a (id INT);'')]"
  by (simp add: fs_second_read_fails_def loadDatabaseSchemas_def endsWith_prefix_rev Let_def)

text \<open>
  C3, amended. Whenever the directory cannot be listed, or the read of some definition
  file of the listing fails (whether or not earlier reads succeeded), the loader logs one
  error and returns the empty mapping: what was read before the failure is discarded. The
  loader still returns and the stored mapping is empty, so that nl-to-sql, whatever the
  environment, the client and the query, answers with one fixed text and without invoking
  the remote client: the key-missing text when the credential is not configured, the
  no-schemas text when it is.
\<close>

theorem failed_read_gives_no_schemas:
  assumes "readdir fs = Inl e \<or>
           (\<exists>files. readdir fs = Inr files \<and> (\<exists>f\<in>set files. endsWith f ''.sql'' \<and> isl (readFile fs f)))"
  shows "schemas_of (loadDatabaseSchemas fs) = []
         \<and> length (logged (loadDatabaseSchemas fs)) = 1
         \<and> databaseSchemas_after_load fs = []
         \<and> nl_to_sql env (databaseSchemas_after_load fs) gen query
               = \<lparr>content = [if GEMINI_API_KEY env = [] then key_missing_text else no_schemas_text],
                  remote_calls = []\<rparr>"
proof -
  have "isl (readdir fs) \<or> (\<exists>files. readdir fs = Inr files \<and> isl (load_loop (readFile fs) files []))"
    using assms load_loop_fails by fastforce
  then have l: "schemas_of (loadDatabaseSchemas fs) = [] \<and> length (logged (loadDatabaseSchemas fs)) = 1"
    by (auto simp: loadDatabaseSchemas_def split: sum.splits)
  then show ?thesis
    by (simp add: databaseSchemas_after_load_def nl_to_sql_def Object_keys_def no_schemas_text_def
        key_missing_text_def)
qed

theorem failed_read_gives_no_schemas_witness:
  "readdir fs_second_read_fails = Inr [''a.sql'', ''b.sql'']
   \<and> endsWith ''b.sql'' ''.sql'' \<and> isl (readFile fs_second_read_fails ''b.sql'')
   \<and> schemas_of (loadDatabaseSchemas fs_second_read_fails) = []
   \<and> length (logged (loadDatabaseSchemas fs_second_read_fails)) = 1
   \<and> nl_to_sql (Some ''k'') (databaseSchemas_after_load fs_second_read_fails) answering_client
         ''list the departments''
       = \<lparr>content = [no_schemas_text], remote_calls = []\<rparr>
   \<and> nl_to_sql None (databaseSchemas_after_load fs_second_read_fails) answering_client
         ''list the departments''
       = \<lparr>content = [key_missing_text], remote_calls = []\<rparr>"
proof -
  have h: "readdir fs_second_read_fails = Inl (Error_object []) \<or>
        (\<exists>files. readdir fs_second_read_fails = Inr files \<and>
           (\<exists>f\<in>set files. endsWith f ''.sql'' \<and> isl (readFile fs_second_read_fails f)))"
    by (simp add: fs_second_read_fails_def endsWith_prefix_rev)
  have r: "readdir fs_second_read_fails = Inr [''a.sql'', ''b.sql'']
      \<and> endsWith ''b.sql'' ''.sql'' \<and> isl (readFile fs_second_read_fails ''b.sql'')"
    by (simp add: fs_second_read_fails_def endsWith_prefix_rev)
  have k: "GEMINI_API_KEY (Some ''k'') \<noteq> []" "GEMINI_API_KEY None = []"
    by (simp_all add: GEMINI_API_KEY_def)
  note t = failed_read_gives_no_schemas [OF h, of _ answering_client "''list the departments''"]
  have 1: "nl_to_sql (Some ''k'') (databaseSchemas_after_load fs_second_read_fails) answering_client
         ''list the departments''
       = \<lparr>content = [no_schemas_text], remote_calls = []\<rparr>"
  proof -
    from t [of "Some ''k''"]
    have "nl_to_sql (Some ''k'') (databaseSchemas_after_load fs_second_read_fails) answering_client
         ''list the departments''
       = \<lparr>content = [if GEMINI_API_KEY (Some ''k'') = [] then key_missing_text else no_schemas_text],
          remote_calls = []\<rparr>"
      by blast
    then show ?thesis by (simp add: k)
  qed
  have 2: "nl_to_sql None (databaseSchemas_after_load fs_second_read_fails) answering_client
         ''list the departments''
       = \<lparr>content = [key_missing_text], remote_calls = []\<rparr>"
  proof -
    from t [of None]
    have "nl_to_sql None (databaseSchemas_after_load fs_second_read_fails) answering_client
         ''list the departments''
       = \<lparr>content = [if GEMINI_API_KEY None = [] then key_missing_text else no_schemas_text],
          remote_calls = []\<rparr>"
      by blast
    then show ?thesis by (simp add: k)
  qed
  show ?thesis
    using t [of None] r 1 2 by blast
qed

text \<open>
  C4 at the directory listing \<^verbatim>\<open>["orders.sqlite.sql"]\<close>: the file is a definition file,
  and its key is neither the name without its extension (\<^verbatim>\<open>orders.sqlite\<close>) nor any
  other name that ends where the extension starts: \<^verbatim>\<open>replace\<close> removes the first
  \<^verbatim>\<open>.sql\<close> of the name, which here is not the extension.
\<close>

theorem key_of_name_with_inner_sql:
  "endsWith ''orders.sqlite.sql'' ''.sql''
   \<and> schemas_of (loadDatabaseSchemas fs_inner_sql)
       = [(''ordersite.sql'', ''CREATE TABLE orders (id INT);'')]
   \<and> Object_keys (schemas_of (loadDatabaseSchemas fs_inner_sql)) \<noteq> [''orders.sqlite'']"
  by (simp add: fs_inner_sql_def loadDatabaseSchemas_def endsWith_prefix_rev Let_def obj_set_def
        is_array_index_def Object_keys_def is_digit_def)

end
